theory Spec2Isabelle
  imports Main "HOL-Library.Sublist" "HOL-Library.Word"
begin

unbundle bit_operations_syntax

section \<open>Strings and path names\<close>

text \<open>
  The runner of \<^verbatim>\<open>src/UserCodeRunner.ts\<close> is embedded here. JavaScript strings are
  \<^typ>\<open>string\<close>; text positions are \<^typ>\<open>int\<close>; a value that may be
  \<^verbatim>\<open>undefined\<close> or \<^verbatim>\<open>null\<close> is an \<^typ>\<open>'a option\<close>.
\<close>

definition EXECUTION_HARNESS_FILENAME :: string where
  "EXECUTION_HARNESS_FILENAME = ''__execution_harness''"

definition USER_CODE_FILENAME :: string where
  "USER_CODE_FILENAME = ''__user_file''"

text \<open>\<^verbatim>\<open>Array.prototype.join\<close> on an array of strings.\<close>

fun join :: "string \<Rightarrow> string list \<Rightarrow> string" where
  "join sep [] = []"
| "join sep [x] = x"
| "join sep (x # y # ys) = x @ sep @ join sep (y # ys)"

text \<open>\<^verbatim>\<open>String.prototype.endsWith\<close>.\<close>

definition endsWith :: "string \<Rightarrow> string \<Rightarrow> bool" where
  "endsWith s t = (length t \<le> length s \<and> drop (length s - length t) s = t)"

text \<open>
  \<^verbatim>\<open>String.prototype.replace\<close> with a string pattern: only the first occurrence is
  replaced (an empty pattern matches at the front).
\<close>

fun replaceFirst :: "string \<Rightarrow> string \<Rightarrow> string \<Rightarrow> string" where
  "replaceFirst [] pat rep = (if pat = [] then rep else [])"
| "replaceFirst (c # cs) pat rep =
     (if prefix pat (c # cs) then rep @ drop (length pat) (c # cs)
      else c # replaceFirst cs pat rep)"

text \<open>
  \<^verbatim>\<open>path.basename\<close> and \<^verbatim>\<open>path.extname\<close> of Node, for POSIX path names: the
  last portion of the path, and that portion from its last dot on (empty when the portion
  has no dot, or its only dot comes first).
\<close>

definition basename :: "string \<Rightarrow> string" where
  "basename p =
     rev (takeWhile (\<lambda>c. c \<noteq> CHR ''/'') (dropWhile (\<lambda>c. c = CHR ''/'') (rev p)))"

definition extname :: "string \<Rightarrow> string" where
  "extname p =
     (let b = basename p;
          ext = rev (takeWhile (\<lambda>c. c \<noteq> CHR ''.'') (rev b));
          stem = rev (drop 1 (dropWhile (\<lambda>c. c \<noteq> CHR ''.'') (rev b)))
      in if stem = [] \<or> b = ''..'' \<or> CHR ''.'' \<notin> set b then [] else CHR ''.'' # ext)"

text \<open>\<^verbatim>\<open>removeExt\<close> (line 703).\<close>

definition removeExt :: "string \<Rightarrow> string" where
  "removeExt pathname = replaceFirst (basename pathname) (extname pathname) []"

text \<open>Numbers in template literals and string concatenation: decimal digits.\<close>

function natToString :: "nat \<Rightarrow> string" where
  "natToString n =
     (if n < 10 then [''0123456789'' ! n]
      else natToString (n div 10) @ [''0123456789'' ! (n mod 10)])"
  by pat_completeness auto
termination
  by (relation "measure id") auto

definition numberToString :: "int \<Rightarrow> string" where
  "numberToString i = (if i < 0 then CHR ''-'' # natToString (nat (- i)) else natToString (nat i))"



section \<open>Syntax trees of the compiler front end\<close>

text \<open>
  A \<^verbatim>\<open>ts.Node\<close>: its identity as an object (\<open>nid\<close>, compared by \<^verbatim>\<open>===\<close>), its
  kind, \<^verbatim>\<open>getStart()\<close> and \<^verbatim>\<open>getEnd()\<close>, \<^verbatim>\<open>getChildren()\<close>, and its named
  properties (\<^verbatim>\<open>statements\<close>, \<^verbatim>\<open>expression\<close>, \<^verbatim>\<open>left\<close>, ...), each a list of nodes:
  one node for a property that holds a node, the elements for a node array.
\<close>

datatype syntax_kind =
    SourceFile | SyntaxList | EndOfFileToken | Token
  | ImportDeclaration | ExportAssignment | ExpressionStatement | IfStatement | Block
  | VariableStatement | VariableDeclarationList | VariableDeclaration
  | ModuleDeclaration | ModuleBlock
  | BinaryExpression | CallExpression | SpreadElement | Identifier
  | AwaitExpression | ParenthesizedExpression | AsExpression
  | TupleType | UnionType | TypeReference | KeywordType | Parameter
  | ImportClause | StringLiteral | NumericLiteral | ReturnStatement
  | ThrowStatement | NewExpression
  | MethodSignature | CallSignature | ConstructSignature | IndexSignature
  | FunctionType | ConstructorType | JSDocFunctionType
  | FunctionDeclaration | MethodDeclaration | Constructor | GetAccessor | SetAccessor
  | FunctionExpression | ArrowFunction
  | OtherKind nat

datatype node =
  Node (nid: nat) (kind: syntax_kind) (getStart: int) (getEnd: int)
       (getChildren: "node list") (props: "(string \<times> node list) list")

text \<open>Reading a property of a node: \<^verbatim>\<open>undefined\<close> when the node has no such property.\<close>

definition getProperty :: "node \<Rightarrow> string \<Rightarrow> node option" where
  "getProperty n name = (case map_of (props n) name of Some (x # xs) \<Rightarrow> Some x | _ \<Rightarrow> None)"

definition getPropertyArray :: "node \<Rightarrow> string \<Rightarrow> node list option" where
  "getPropertyArray n name = map_of (props n) name"

text \<open>The type guards of the compiler that the runner uses.\<close>

definition isExpressionStatement :: "node \<Rightarrow> bool" where
  "isExpressionStatement n = (kind n = ExpressionStatement)"

definition isIfStatement :: "node \<Rightarrow> bool" where
  "isIfStatement n = (kind n = IfStatement)"

definition isModuleDeclaration :: "node \<Rightarrow> bool" where
  "isModuleDeclaration n = (kind n = ModuleDeclaration)"

definition isVariableDeclarationList :: "node \<Rightarrow> bool" where
  "isVariableDeclarationList n = (kind n = VariableDeclarationList)"

definition isExportAssignment :: "node \<Rightarrow> bool" where
  "isExportAssignment n = (kind n = ExportAssignment)"

definition isFunctionLike :: "node \<Rightarrow> bool" where
  "isFunctionLike n =
     (kind n \<in> {MethodSignature, CallSignature, ConstructSignature, IndexSignature,
                 FunctionType, ConstructorType, JSDocFunctionType,
                 FunctionDeclaration, MethodDeclaration, Constructor, GetAccessor,
                 SetAccessor, FunctionExpression, ArrowFunction})"

text \<open>
  \<^verbatim>\<open>UserCodeError.getDescendentNodes\<close> (line 263): the outermost descendants that pass
  the guard, in document order.
\<close>

fun getDescendentNodes :: "node \<Rightarrow> (node \<Rightarrow> bool) \<Rightarrow> node list" where
  "getDescendentNodes (Node i k s e cs ps) guard =
     (if guard (Node i k s e cs ps) then [Node i k s e cs ps]
      else concat (map (\<lambda>child. getDescendentNodes child guard) cs))"

text \<open>
  \<^verbatim>\<open>UserCodeError.getDescendentAtLocation\<close> (line 275). The loop returns from the first
  child that spans the range; \<open>descendInto\<close> is that loop over the remaining children.
\<close>

fun getDescendentAtLocation :: "node \<Rightarrow> int \<Rightarrow> int \<Rightarrow> node"
  and descendInto :: "node \<Rightarrow> node list \<Rightarrow> int \<Rightarrow> int \<Rightarrow> node" where
  "getDescendentAtLocation (Node i k s e cs ps) from to =
     (if s = from \<and> e = to then Node i k s e cs ps
      else descendInto (Node i k s e cs ps) cs from to)"
| "descendInto n [] from to = n"
| "descendInto n (child1 # rest) from to =
     (if getStart child1 \<le> from \<and> to \<le> getEnd child1
      then getDescendentAtLocation child1 from to
      else descendInto n rest from to)"

section \<open>Source files and the line map\<close>

text \<open>
  A \<^verbatim>\<open>ts.SourceFile\<close>: its file name, its text and its syntax tree. The node of the
  file itself is the root of the tree, so \<^verbatim>\<open>file.getStart()\<close> and
  \<^verbatim>\<open>file.getEnd()\<close> are those of \<open>ast\<close>; the compiler puts the start at the first
  token of the file and the end at the end of the text.
\<close>

record source_file =
  fileName :: string
  fileText :: string
  ast :: node

text \<open>
  \<^verbatim>\<open>node.getText()\<close>: the text of the node's file between the node's start and end.
\<close>

definition getText :: "source_file \<Rightarrow> node \<Rightarrow> string" where
  "getText sf n = take (nat (getEnd n - getStart n)) (drop (nat (getStart n)) (fileText sf))"

text \<open>
  The compiler's line map, \<^verbatim>\<open>getLineAndCharacterOfPosition\<close>: the zero-based line of a
  position and the offset of the position in that line. A line ends with a line feed, a
  carriage return, or a carriage return and a line feed; a position past the end of the
  text counts on the last line.
\<close>

fun lineAndCharacter :: "string \<Rightarrow> nat \<Rightarrow> nat \<times> nat" where
  "lineAndCharacter cs 0 = (0, 0)"
| "lineAndCharacter [] (Suc p) = (0, Suc p)"
| "lineAndCharacter (c # cs) (Suc p) =
     (if c = CHR 0x0D \<and> cs \<noteq> [] \<and> hd cs = CHR 0x0A then
        (case p of 0 \<Rightarrow> (0, 1)
         | Suc q \<Rightarrow> (let (l, ch) = lineAndCharacter (tl cs) q in (Suc l, ch)))
      else if c = CHR 0x0D \<or> c = CHR 0x0A then
        (let (l, ch) = lineAndCharacter cs p in (Suc l, ch))
      else
        (let (l, ch) = lineAndCharacter cs p in (l, if l = 0 then Suc ch else ch)))"

definition getLineAndCharacterOfPosition :: "source_file \<Rightarrow> int \<Rightarrow> int \<times> int" where
  "getLineAndCharacterOfPosition sf pos =
     (let (l, ch) = lineAndCharacter (fileText sf) (nat pos) in (int l, int ch))"

section \<open>Diagnostics, symbols and types\<close>

text \<open>
  A \<^verbatim>\<open>ts.DiagnosticMessageChain\<close>, and the \<^verbatim>\<open>messageText\<close> of a diagnostic: a
  string or a chain. A chain without \<^verbatim>\<open>next\<close> has the empty list.
\<close>

datatype message_chain =
  DiagnosticMessageChain (chain_messageText: string) (chain_code: int)
                         (chain_next: "message_chain list")

datatype message_text = Text string | Chain message_chain

record diagnostic =
  dfile :: "source_file option"
  start :: "int option"
  dlength :: "int option"
  code :: int
  messageText :: message_text

text \<open>\<^verbatim>\<open>getDiagnosticMessageChainCodes\<close> (line 692) and \<^verbatim>\<open>getDiagnosticCodes\<close> (line 683).\<close>

fun getDiagnosticMessageChainCodes :: "message_chain \<Rightarrow> int list" where
  "getDiagnosticMessageChainCodes (DiagnosticMessageChain t c nxt) =
     c # concat (map getDiagnosticMessageChainCodes nxt)"

definition getDiagnosticCodes :: "diagnostic \<Rightarrow> int list" where
  "getDiagnosticCodes d =
     code d # (case messageText d of Text t \<Rightarrow> [] | Chain ch \<Rightarrow> getDiagnosticMessageChainCodes ch)"

text \<open>
  A \<^verbatim>\<open>ts.Symbol\<close>, a \<^verbatim>\<open>ts.Type\<close> with its call signatures, and the queries of the
  \<^verbatim>\<open>ts.TypeChecker\<close> that the runner makes. \<^verbatim>\<open>getAliasedSymbol\<close> throws on a symbol
  that is no alias: \<open>None\<close> is that throw.
\<close>

record symbol =
  escapedName :: string
  flags :: "32 word"
  valueDeclaration :: "node option"
  declarations :: "node list option"

datatype ts_type = TsType (type_id: nat) (getCallSignatures: "signature list")
  and signature = Signature (getReturnType: ts_type) (getParameters: "symbol list")

definition SymbolFlags_Function :: "32 word" where
  "SymbolFlags_Function = 16"

record type_checker =
  getSymbolAtLocation :: "source_file \<Rightarrow> symbol option"
  getExportsOfModule :: "symbol \<Rightarrow> symbol list"
  getAliasedSymbol :: "symbol \<Rightarrow> symbol option"
  getTypeAtLocation :: "node \<Rightarrow> ts_type"
  typeToString :: "ts_type \<Rightarrow> string"
  getTypeOfSymbolAtLocation :: "symbol \<Rightarrow> source_file \<Rightarrow> ts_type"

text \<open>
  What the runner throws: a \<^verbatim>\<open>TypeError\<close> of the engine (a member read or a call on
  \<^verbatim>\<open>undefined\<close>), an \<^verbatim>\<open>Error\<close> it makes itself, or a caught error it throws again.
  A stack frame is a call site of the \<^verbatim>\<open>stack-trace\<close> parser; \<open>parse\<close> is the parsed
  stack of an error.
\<close>

record stack_frame =
  getFileName :: "string option"
  getFunctionName :: "string option"
  getLineNumber :: "int option"
  getColumnNumber :: "int option"

record js_error =
  error_message :: string
  parse :: "stack_frame list"

datatype error = TypeError | Error string | Rethrown js_error

text \<open>Sequencing of steps that may throw.\<close>

definition andThen :: "error + 'a \<Rightarrow> ('a \<Rightarrow> error + 'b) \<Rightarrow> error + 'b" where
  "andThen m f = (case m of Inl e \<Rightarrow> Inl e | Inr x \<Rightarrow> f x)"

text \<open>A member read \<^verbatim>\<open>obj.name\<close>, and a non-null value used: both throw on \<^verbatim>\<open>undefined\<close>.\<close>

definition member :: "node option \<Rightarrow> string \<Rightarrow> error + node option" where
  "member obj name = (case obj of None \<Rightarrow> Inl TypeError | Some n \<Rightarrow> Inr (getProperty n name))"

definition defined :: "'a option \<Rightarrow> error + 'a" where
  "defined v = (case v of None \<Rightarrow> Inl TypeError | Some x \<Rightarrow> Inr x)"

section \<open>Type errors and their relocation\<close>

text \<open>
  The fields of a \<^verbatim>\<open>UserCodeTypeError\<close> (line 305). The constructor of
  \<^verbatim>\<open>ExecutionHarnessTypeError\<close> rewrites \<open>diagnostic\<close> in place; the embedding
  returns the object with the rewritten diagnostic.
\<close>

record type_error =
  diagnostic :: diagnostic
  sources :: "string \<Rightarrow> source_file option"
  typeChecker :: type_checker
  mapDiagnosticMessage :: "diagnostic \<Rightarrow> string list"

record position =
  line :: "int option"
  column :: "int option"

text \<open>
  \<^verbatim>\<open>getDescendentAtLocation(file, start!, start! + length!)\<close>: with \<^verbatim>\<open>start\<close> or
  \<^verbatim>\<open>length\<close> undefined every comparison of the search fails and it returns the file's
  node. \<open>getDescendentPath\<close> is the same search, keeping the nodes it passes through:
  the chain of parents of the node found, outermost first.
\<close>

definition locate :: "node \<Rightarrow> int option \<Rightarrow> int option \<Rightarrow> node" where
  "locate root st len =
     (case (st, len) of
        (Some s, Some l) \<Rightarrow> getDescendentAtLocation root s (s + l)
      | _ \<Rightarrow> root)"

fun getDescendentPath :: "node \<Rightarrow> int \<Rightarrow> int \<Rightarrow> node list"
  and descendPathInto :: "node list \<Rightarrow> int \<Rightarrow> int \<Rightarrow> node list" where
  "getDescendentPath (Node i k s e cs ps) from to =
     (if s = from \<and> e = to then [Node i k s e cs ps]
      else Node i k s e cs ps # descendPathInto cs from to)"
| "descendPathInto [] from to = []"
| "descendPathInto (child1 # rest) from to =
     (if getStart child1 \<le> from \<and> to \<le> getEnd child1
      then getDescendentPath child1 from to
      else descendPathInto rest from to)"



subsection \<open>The getters of \<^verbatim>\<open>ExecutionHarnessTypeError\<close> (lines 551 to 664)\<close>

definition defaultExportSymbol :: "type_error \<Rightarrow> error + symbol option" where
  "defaultExportSymbol this =
     andThen (defined (sources this USER_CODE_FILENAME)) (\<lambda>userFile.
       case getSymbolAtLocation (typeChecker this) userFile of
         None \<Rightarrow> Inr None
       | Some userFileSymbol \<Rightarrow>
           Inr (find (\<lambda>symbol. escapedName symbol = ''default'')
                  (getExportsOfModule (typeChecker this) userFileSymbol)))"

definition defaultExportNode :: "type_error \<Rightarrow> error + node option" where
  "defaultExportNode this =
     andThen (defaultExportSymbol this) (\<lambda>defaultExportSymbol.
       case defaultExportSymbol of
         None \<Rightarrow> Inr None
       | Some symb \<Rightarrow>
           Inr (case valueDeclaration symb of
                  Some n \<Rightarrow> Some n
                | None \<Rightarrow> (case declarations symb of Some (n # ns) \<Rightarrow> Some n | _ \<Rightarrow> None)))"

definition defaultExportedFunctionSymbol :: "type_error \<Rightarrow> error + symbol option" where
  "defaultExportedFunctionSymbol this =
     andThen (defaultExportSymbol this) (\<lambda>defaultExportSymbol.
       case defaultExportSymbol of
         None \<Rightarrow> Inr None
       | Some symb \<Rightarrow>
           (let unaliasedDefaultExportSymbol =
                  (case getAliasedSymbol (typeChecker this) symb of None \<Rightarrow> symb | Some a \<Rightarrow> a)
            in if flags unaliasedDefaultExportSymbol AND SymbolFlags_Function = 0 then Inr None
               else Inr (Some unaliasedDefaultExportSymbol)))"

definition defaultExportNodeType :: "type_error \<Rightarrow> error + ts_type option" where
  "defaultExportNodeType this =
     andThen (defaultExportNode this) (\<lambda>defaultExportNode.
       case defaultExportNode of
         None \<Rightarrow> Inr None
       | Some n \<Rightarrow>
           if isExportAssignment n then
             andThen (defined (getProperty n ''expression'')) (\<lambda>expression.
               Inr (Some (getTypeAtLocation (typeChecker this) expression)))
           else Inr (Some (getTypeAtLocation (typeChecker this) n)))"

definition defaultExportedFunctionNode :: "type_error \<Rightarrow> error + node option" where
  "defaultExportedFunctionNode this =
     andThen (defaultExportedFunctionSymbol this) (\<lambda>defaultExportedFunctionSymbol.
       Inr (case defaultExportedFunctionSymbol of
              None \<Rightarrow> None
            | Some symb \<Rightarrow>
                (case valueDeclaration symb of
                   None \<Rightarrow> None
                 | Some n \<Rightarrow> if isFunctionLike n then Some n else None)))"

definition defaultExportedFunctionReturnNode :: "type_error \<Rightarrow> error + node option" where
  "defaultExportedFunctionReturnNode this =
     andThen (defaultExportedFunctionNode this) (\<lambda>defaultExportedFunctionNode.
       Inr (case defaultExportedFunctionNode of
              None \<Rightarrow> None
            | Some n \<Rightarrow> getProperty n ''type''))"

text \<open>\<^verbatim>\<open>executionHarness.statements\<close>, of the harness in \<open>sources\<close>.\<close>

definition executionHarnessStatements :: "type_error \<Rightarrow> error + node list" where
  "executionHarnessStatements this =
     andThen (defined (sources this EXECUTION_HARNESS_FILENAME)) (\<lambda>executionHarness.
       defined (getPropertyArray (ast executionHarness) ''statements''))"

definition executionHarnessExpressionStatementNode :: "type_error \<Rightarrow> error + node option" where
  "executionHarnessExpressionStatementNode this =
     andThen (executionHarnessStatements this) (\<lambda>statements.
       member (find isExpressionStatement statements) ''expression'')"

definition executionHarnessAsyncExpressionStatementNode :: "type_error \<Rightarrow> error + node option" where
  "executionHarnessAsyncExpressionStatementNode this =
     andThen (executionHarnessStatements this) (\<lambda>statements.
     andThen (member (find isIfStatement statements) ''thenStatement'') (\<lambda>thenStatement.
     andThen (defined thenStatement) (\<lambda>block.
     andThen (defined (getPropertyArray block ''statements'')) (\<lambda>blockStatements.
       member (find isExpressionStatement blockStatements) ''expression''))))"

definition executionHarnessResultNode :: "type_error \<Rightarrow> error + node option" where
  "executionHarnessResultNode this =
     andThen (executionHarnessExpressionStatementNode this) (\<lambda>binaryExpression.
       member binaryExpression ''left'')"

definition executionHarnessAsyncResultNode :: "type_error \<Rightarrow> error + node option" where
  "executionHarnessAsyncResultNode this =
     andThen (executionHarnessAsyncExpressionStatementNode this) (\<lambda>binaryExpression.
       member binaryExpression ''left'')"

definition executionHarnessDefaultFunctionCallNode :: "type_error \<Rightarrow> error + node option" where
  "executionHarnessDefaultFunctionCallNode this =
     andThen (executionHarnessExpressionStatementNode this) (\<lambda>binaryExpression.
       member binaryExpression ''right'')"

definition executionHarnessArgumentsNode :: "type_error \<Rightarrow> error + node option" where
  "executionHarnessArgumentsNode this =
     andThen (executionHarnessDefaultFunctionCallNode this) (\<lambda>callExpression.
     andThen (defined callExpression) (\<lambda>call.
       Inr (find (\<lambda>c. kind c = SyntaxList) (getChildren call))))"

definition executionHarnessDefaultFunctionIdentifierNode :: "type_error \<Rightarrow> error + node option" where
  "executionHarnessDefaultFunctionIdentifierNode this =
     andThen (executionHarnessDefaultFunctionCallNode this) (\<lambda>callExpression.
       member callExpression ''expression'')"

definition globalModuleDeclarationBlock :: "type_error \<Rightarrow> error + node option" where
  "globalModuleDeclarationBlock this =
     andThen (executionHarnessStatements this) (\<lambda>statements.
       member (find isModuleDeclaration statements) ''body'')"

text \<open>
  \<^verbatim>\<open>argumentTypeNode\<close> and \<^verbatim>\<open>outputTypeNode\<close> differ in the statement of the module
  block they read: the first and the second. \<open>declaredTypeNode\<close> is their common body.
\<close>

definition declaredTypeNode :: "type_error \<Rightarrow> nat \<Rightarrow> error + node option" where
  "declaredTypeNode this i =
     andThen (globalModuleDeclarationBlock this) (\<lambda>body.
     andThen (defined body) (\<lambda>moduleBlock.
     andThen (defined (getPropertyArray moduleBlock ''statements'')) (\<lambda>statements.
       case drop i statements of
         [] \<Rightarrow> Inl TypeError
       | statement # ss \<Rightarrow>
           (case getDescendentNodes statement isVariableDeclarationList of
              [] \<Rightarrow> Inl TypeError
            | variableDeclaration # vs \<Rightarrow>
                andThen (defined (getPropertyArray variableDeclaration ''declarations''))
                  (\<lambda>declarations.
                     case declarations of
                       [] \<Rightarrow> Inl TypeError
                     | declaration # ds \<Rightarrow> Inr (getProperty declaration ''type''))))))"

definition argumentTypeNode :: "type_error \<Rightarrow> error + node option" where
  "argumentTypeNode this = declaredTypeNode this 0"

definition outputTypeNode :: "type_error \<Rightarrow> error + node option" where
  "outputTypeNode this = declaredTypeNode this 1"

text \<open>\<^verbatim>\<open>this.argumentTypeNode.getText()\<close> and \<^verbatim>\<open>this.outputTypeNode.getText()\<close>.\<close>

definition harnessNodeText :: "type_error \<Rightarrow> error + node option \<Rightarrow> error + string" where
  "harnessNodeText this getter =
     andThen getter (\<lambda>typeNode.
     andThen (defined typeNode) (\<lambda>n.
     andThen (defined (sources this EXECUTION_HARNESS_FILENAME)) (\<lambda>executionHarness.
       Inr (getText executionHarness n))))"

subsection \<open>The constructor of \<^verbatim>\<open>ExecutionHarnessTypeError\<close> (lines 431 to 522)\<close>

text \<open>The signature that two of the messages quote.\<close>

definition expectedSignature :: "string \<Rightarrow> string \<Rightarrow> string" where
  "expectedSignature argumentType outputType =
     [CHR 0x22] @ ''(...args: '' @ argumentType @ '') => '' @ outputType @ [CHR 0x22]"

text \<open>No default export (lines 452 to 458).\<close>

definition noDefaultExport :: "type_error \<Rightarrow> error + type_error" where
  "noDefaultExport this =
     andThen (defined (sources this USER_CODE_FILENAME)) (\<lambda>userFile.
     andThen (harnessNodeText this (argumentTypeNode this)) (\<lambda>argumentType.
     andThen (harnessNodeText this (outputTypeNode this)) (\<lambda>outputType.
       Inr (this\<lparr>diagnostic := (diagnostic this)
              \<lparr>dfile := Some userFile,
               start := Some (getStart (ast userFile)),
               dlength := Some (getEnd (ast userFile) - getStart (ast userFile)),
               messageText := Text
                 (''No default export. Expected a default export function with the signature: ''
                  @ expectedSignature argumentType outputType @ ''.'')\<rparr>\<rparr>))))"

text \<open>The default export is not a function (lines 463 to 469).\<close>

definition notAValidFunction :: "type_error \<Rightarrow> node \<Rightarrow> error + type_error" where
  "notAValidFunction this exportNode =
     andThen (harnessNodeText this (argumentTypeNode this)) (\<lambda>argumentType.
     andThen (harnessNodeText this (outputTypeNode this)) (\<lambda>outputType.
       Inr (this\<lparr>diagnostic := (diagnostic this)
              \<lparr>dfile := sources this USER_CODE_FILENAME,
               start := Some (getStart exportNode),
               dlength := Some (getEnd exportNode - getStart exportNode),
               messageText := Text
                 (''Default export is not a valid function. Expected a default export function with the signature: ''
                  @ expectedSignature argumentType outputType @ ''.'')\<rparr>\<rparr>)))"

text \<open>Errors in the return type of the default export (lines 471 to 491).\<close>

definition incorrectReturnType :: "type_error \<Rightarrow> node \<Rightarrow> signature \<Rightarrow> error + type_error" where
  "incorrectReturnType this exportNode callSignature =
     (let returnType = getReturnType callSignature in
      andThen (defaultExportedFunctionReturnNode this) (\<lambda>returnTypeNode.
      andThen (harnessNodeText this (outputTypeNode this)) (\<lambda>outputType.
        let target = (case returnTypeNode of Some n \<Rightarrow> n | None \<Rightarrow> exportNode) in
        Inr (this\<lparr>diagnostic := (diagnostic this)
               \<lparr>dfile := sources this USER_CODE_FILENAME,
                start := Some (getStart target),
                dlength := Some (getEnd target - getStart target),
                messageText := Text
                  (''Incorrect return type. Expected: '' @ [CHR 0x27] @ outputType @ [CHR 0x27]
                   @ '', Actual: '' @ [CHR 0x27] @ typeToString (typeChecker this) returnType
                   @ [CHR 0x27] @ ''.'')\<rparr>\<rparr>))))"

text \<open>
  Errors in the argument types of the default export (lines 494 to 519).
  \<^verbatim>\<open>Math.min\<close> and \<^verbatim>\<open>Math.max\<close> are taken of one number for each parameter, and
  this branch has a parameter.
\<close>

fun Math_min :: "int list \<Rightarrow> int" where
  "Math_min (x # xs) = fold min xs x"

fun Math_max :: "int list \<Rightarrow> int" where
  "Math_max (x # xs) = fold max xs x"

fun valueDeclarations :: "symbol list \<Rightarrow> error + node list" where
  "valueDeclarations [] = Inr []"
| "valueDeclarations (p # ps) =
     andThen (defined (valueDeclaration p)) (\<lambda>n.
     andThen (valueDeclarations ps) (\<lambda>ns. Inr (n # ns)))"

definition actualParameterTypes :: "type_error \<Rightarrow> source_file \<Rightarrow> symbol list \<Rightarrow> string" where
  "actualParameterTypes this userFile parameters =
     ''['' @ join '', ''
       (map (\<lambda>p. typeToString (typeChecker this)
                   (getTypeOfSymbolAtLocation (typeChecker this) p userFile)) parameters)
     @ '']''"

definition incorrectArgumentType :: "type_error \<Rightarrow> node \<Rightarrow> signature \<Rightarrow> error + type_error" where
  "incorrectArgumentType this exportNode callSignature =
     (let parameters = getParameters callSignature in
      if parameters = [] then
        andThen (harnessNodeText this (argumentTypeNode this)) (\<lambda>argumentType.
          Inr (this\<lparr>diagnostic := (diagnostic this)
                 \<lparr>dfile := sources this USER_CODE_FILENAME,
                  start := Some (getStart exportNode),
                  dlength := Some (getEnd exportNode - getStart exportNode),
                  messageText := Text
                    (''Incorrect argument type. Expected: '' @ [CHR 0x27] @ argumentType
                     @ [CHR 0x27] @ '', Actual: '' @ [CHR 0x27] @ ''[]'' @ [CHR 0x27]
                     @ ''.'')\<rparr>\<rparr>))
      else
        andThen (valueDeclarations parameters) (\<lambda>decls.
        andThen (harnessNodeText this (argumentTypeNode this)) (\<lambda>argumentType.
        andThen (defined (sources this USER_CODE_FILENAME)) (\<lambda>userFile.
          Inr (this\<lparr>diagnostic := (diagnostic this)
                 \<lparr>dfile := Some userFile,
                  start := Some (Math_min (map getStart decls)),
                  dlength := Some (Math_max (map getEnd decls) - Math_min (map getStart decls)),
                  messageText := Text
                    (''Incorrect argument type. Expected: '' @ [CHR 0x27] @ argumentType
                     @ [CHR 0x27] @ '', Actual: '' @ [CHR 0x27]
                     @ actualParameterTypes this userFile parameters @ [CHR 0x27]
                     @ ''.'')\<rparr>\<rparr>)))))"

text \<open>
  The comparisons \<^verbatim>\<open>diagnosticNode === anchor\<close> of lines 471 and 495 to 497, which
  \<^verbatim>\<open>||\<close> evaluates from the left until one holds.
\<close>

definition sameNode :: "node \<Rightarrow> node option \<Rightarrow> bool" where
  "sameNode n anchor = (case anchor of None \<Rightarrow> False | Some a \<Rightarrow> nid a = nid n)"

definition isReturnTypeAnchor :: "type_error \<Rightarrow> node \<Rightarrow> error + bool" where
  "isReturnTypeAnchor this diagnosticNode =
     andThen (executionHarnessResultNode this) (\<lambda>resultNode.
       if sameNode diagnosticNode resultNode then Inr True
       else andThen (executionHarnessAsyncResultNode this) (\<lambda>asyncResultNode.
              Inr (sameNode diagnosticNode asyncResultNode)))"

definition isArgumentTypeAnchor :: "type_error \<Rightarrow> node \<Rightarrow> error + bool" where
  "isArgumentTypeAnchor this diagnosticNode =
     andThen (executionHarnessDefaultFunctionCallNode this) (\<lambda>callNode.
       if sameNode diagnosticNode callNode then Inr True
       else andThen (executionHarnessDefaultFunctionIdentifierNode this) (\<lambda>identifierNode.
         if sameNode diagnosticNode identifierNode then Inr True
         else andThen (executionHarnessArgumentsNode this) (\<lambda>argumentsNode.
                Inr (sameNode diagnosticNode argumentsNode))))"

text \<open>\<^verbatim>\<open>callSignature\<close> of line 460.\<close>

definition firstCallSignature :: "ts_type option \<Rightarrow> signature option" where
  "firstCallSignature t =
     (case t of
        None \<Rightarrow> None
      | Some ty \<Rightarrow> (case getCallSignatures ty of [] \<Rightarrow> None | sg # sgs \<Rightarrow> Some sg))"

definition new_ExecutionHarnessTypeError :: "type_error \<Rightarrow> error + type_error" where
  "new_ExecutionHarnessTypeError this =
     andThen (defined (sources this EXECUTION_HARNESS_FILENAME)) (\<lambda>executionHarness.
     let diagnosticNode =
           locate (ast executionHarness) (start (diagnostic this)) (dlength (diagnostic this)) in
     andThen (defaultExportSymbol this) (\<lambda>defaultExportSymbol.
     andThen (defaultExportNode this) (\<lambda>defaultExportNode.
       case (defaultExportSymbol, defaultExportNode) of
         (Some symb, Some exportNode) \<Rightarrow>
           andThen (defaultExportNodeType this) (\<lambda>exportType.
             case firstCallSignature exportType of
               None \<Rightarrow> notAValidFunction this exportNode
             | Some callSignature \<Rightarrow>
                 andThen (isReturnTypeAnchor this diagnosticNode) (\<lambda>returnAnchor.
                   if returnAnchor then incorrectReturnType this exportNode callSignature
                   else
                     andThen (isArgumentTypeAnchor this diagnosticNode) (\<lambda>argumentAnchor.
                       if argumentAnchor
                       then incorrectArgumentType this exportNode callSignature
                       else Inl (Error (''Unhandled diagnostic node: ''
                                        @ getText executionHarness diagnosticNode)))))
       | _ \<Rightarrow> noDefaultExport this)))"

subsection \<open>The error classes\<close>

text \<open>
  A \<^verbatim>\<open>SourceMapConsumer\<close> is its \<^verbatim>\<open>originalPositionFor\<close>: from a generated line
  and column to the original position, whose line and column are \<^verbatim>\<open>null\<close> when the
  map has no entry.
\<close>

type_synonym source_map_consumer = "int option \<Rightarrow> int option \<Rightarrow> position"


record runtime_error =
  error :: js_error
  sourceMap :: source_map_consumer
  stackFrames :: "stack_frame list"

datatype user_code_error =
    UserCodeTypeError type_error
  | ExecutionHarnessTypeError type_error
  | UserCodeRuntimeError runtime_error

text \<open>
  \<^verbatim>\<open>UserCodeTypeError.new\<close> (line 347); \<open>isHarnessDiagnostic\<close> is its test of
  line 353.
\<close>

definition isHarnessDiagnostic :: "diagnostic \<Rightarrow> bool" where
  "isHarnessDiagnostic d =
     (removeExt (case dfile d of None \<Rightarrow> [] | Some f \<Rightarrow> fileName f)
      = EXECUTION_HARNESS_FILENAME)"

definition new_UserCodeTypeError ::
  "diagnostic \<Rightarrow> (string \<Rightarrow> source_file option) \<Rightarrow> type_checker \<Rightarrow> (diagnostic \<Rightarrow> string list)
   \<Rightarrow> error + user_code_error" where
  "new_UserCodeTypeError d srcs checker mapper =
     (let this = \<lparr>diagnostic = d, sources = srcs, typeChecker = checker,
                  mapDiagnosticMessage = mapper\<rparr>
      in if isHarnessDiagnostic d
         then andThen (new_ExecutionHarnessTypeError this) (\<lambda>relocated.
                Inr (ExecutionHarnessTypeError relocated))
         else Inr (UserCodeTypeError this))"

text \<open>The getters of \<^verbatim>\<open>UserCodeTypeError\<close> (lines 315 to 345).\<close>

definition UserCodeTypeError_message :: "type_error \<Rightarrow> string" where
  "UserCodeTypeError_message this =
     ''TypeError: TS'' @ numberToString (code (diagnostic this)) @ '' ''
     @ join [CHR 0x0A] (mapDiagnosticMessage this (diagnostic this))"



text \<open>\<^verbatim>\<open>ExecutionHarnessTypeError.location\<close> (line 536).\<close>

definition ExecutionHarnessTypeError_location :: "type_error \<Rightarrow> error + position" where
  "ExecutionHarnessTypeError_location this =
     (case start (diagnostic this) of
        None \<Rightarrow> Inr \<lparr>line = Some 1, column = Some 1\<rparr>
      | Some s \<Rightarrow>
          andThen (defined (sources this USER_CODE_FILENAME)) (\<lambda>userFile.
            let (l, character) = getLineAndCharacterOfPosition userFile s
            in Inr \<lparr>line = Some (l + 1), column = Some (character + 1)\<rparr>))"

section \<open>Runtime errors\<close>

text \<open>The constructor of \<^verbatim>\<open>UserCodeRuntimeError\<close> (line 366) and its getters.\<close>

definition outsideUserCodeMessage :: string where
  "outsideUserCodeMessage =
     ''Error: Runtime error detected outside of user code execution path. This is most likely a bug in the additional library source.''
     @ [CHR 0x0A] @ ''Inherited from:'' @ [CHR 0x0A]"

definition new_UserCodeRuntimeError :: "js_error \<Rightarrow> source_map_consumer \<Rightarrow> error + runtime_error" where
  "new_UserCodeRuntimeError err consumer =
     (let frames = parse err in
      case find (\<lambda>frame. getFileName frame = Some USER_CODE_FILENAME) frames of
        None \<Rightarrow>
          Inl (Rethrown (err\<lparr>error_message := outsideUserCodeMessage @ error_message err\<rparr>))
      | Some userCodeFrame \<Rightarrow>
          Inr \<lparr>error = err, sourceMap = consumer, stackFrames = frames\<rparr>)"

definition UserCodeRuntimeError_message :: "runtime_error \<Rightarrow> string" where
  "UserCodeRuntimeError_message this = ''Error: '' @ error_message (error this)"





text \<open>\<^verbatim>\<open>message\<close> and \<^verbatim>\<open>location\<close> of any \<^verbatim>\<open>UserCodeError\<close>.\<close>

fun message :: "user_code_error \<Rightarrow> string" where
  "message (UserCodeTypeError t) = UserCodeTypeError_message t"
| "message (ExecutionHarnessTypeError t) = UserCodeTypeError_message t"
| "message (UserCodeRuntimeError r) = UserCodeRuntimeError_message r"


section \<open>The runner\<close>

text \<open>
  The compiler front end, as \<^verbatim>\<open>preProcess\<close> uses it: the parser behind
  \<^verbatim>\<open>ts.createSourceFile\<close>, and \<^verbatim>\<open>ts.createProgram\<close> on the root names and the
  files the host serves, whose program gives the diagnostics before emit, the result of
  \<^verbatim>\<open>emit()\<close> (its diagnostics and the calls of the host's \<^verbatim>\<open>writeFile\<close>) and the
  type checker.
\<close>

record emit_result =
  diagnostics :: "diagnostic list"
  writes :: "(string \<times> string) list"

record program =
  getPreEmitDiagnostics :: "diagnostic list"
  emit :: emit_result
  getTypeChecker :: type_checker

record front_end =
  parseSourceFile :: "string \<Rightarrow> string \<Rightarrow> node"
  createProgram :: "string list \<Rightarrow> (string \<Rightarrow> source_file option) \<Rightarrow> program"
  flattenDiagnosticMessageText :: "message_text \<Rightarrow> string"

definition createSourceFile :: "front_end \<Rightarrow> string \<Rightarrow> string \<Rightarrow> source_file" where
  "createSourceFile ts name content =
     \<lparr>fileName = name, fileText = content, ast = parseSourceFile ts name content\<rparr>"

text \<open>The text of the execution harness (lines 51 to 70).\<close>

definition executionCode :: "string list \<Rightarrow> string \<Rightarrow> source_file list \<Rightarrow> string" where
  "executionCode argsTypes outputType additionalSourceFiles =
     [CHR 0x0A, CHR 0x09, CHR 0x09, CHR 0x09]
     @ join ([CHR 0x0A] @ ''  '')
         (map (\<lambda>file. if endsWith (fileName file) ''.d.ts'' then []
                       else ''import '' @ [CHR 0x27] @ removeExt (fileName file) @ [CHR 0x27] @ '';'')
            additionalSourceFiles)
     @ [CHR 0x0A] @ ''      import defaultExport from '' @ [CHR 0x27] @ USER_CODE_FILENAME
     @ [CHR 0x27] @ '';''
     @ [CHR 0x0A] @ ''            ''
     @ [CHR 0x0A] @ ''      declare global {''
     @ [CHR 0x0A] @ ''        const __args: ['' @ join '', '' argsTypes @ ''];''
     @ [CHR 0x0A] @ ''        let __result: '' @ outputType @ '' | Promise<'' @ outputType @ ''>;''
     @ [CHR 0x0A] @ ''      }''
     @ [CHR 0x0A] @ ''      __result = defaultExport(...__args);''
     @ [CHR 0x0A] @ ''      ''
     @ [CHR 0x0A] @ ''      if ((__result as any) instanceof Promise) {''
     @ [CHR 0x0A] @ ''      '' @ [CHR 0x09] @ ''__result = await __result;''
     @ [CHR 0x0A] @ ''      }''
     @ [CHR 0x0A] @ ''    ''"

definition userSourceFile :: "front_end \<Rightarrow> string \<Rightarrow> source_file" where
  "userSourceFile ts userCode = createSourceFile ts USER_CODE_FILENAME userCode"

definition executionSourceFile ::
  "front_end \<Rightarrow> string \<Rightarrow> string list \<Rightarrow> source_file list \<Rightarrow> source_file" where
  "executionSourceFile ts outputType argsTypes additionalSourceFiles =
     createSourceFile ts EXECUTION_HARNESS_FILENAME
       (executionCode argsTypes outputType additionalSourceFiles)"

text \<open>\<^verbatim>\<open>tsFileMap\<close> (lines 80 to 87): a later \<^verbatim>\<open>set\<close> of a key replaces the earlier one.\<close>

definition tsFileMap ::
  "front_end \<Rightarrow> string \<Rightarrow> string \<Rightarrow> string list \<Rightarrow> source_file list
   \<Rightarrow> string \<Rightarrow> source_file option" where
  "tsFileMap ts userCode outputType argsTypes additionalSourceFiles =
     fold (\<lambda>additionalSourceFile m. m(removeExt (fileName additionalSourceFile) \<mapsto> additionalSourceFile))
       additionalSourceFiles
       [USER_CODE_FILENAME \<mapsto> userSourceFile ts userCode,
        EXECUTION_HARNESS_FILENAME \<mapsto>
          executionSourceFile ts outputType argsTypes additionalSourceFiles]"

definition compile ::
  "front_end \<Rightarrow> string \<Rightarrow> string \<Rightarrow> string list \<Rightarrow> source_file list \<Rightarrow> program" where
  "compile ts userCode outputType argsTypes additionalSourceFiles =
     createProgram ts (map fileName additionalSourceFiles @ [EXECUTION_HARNESS_FILENAME])
       (tsFileMap ts userCode outputType argsTypes additionalSourceFiles)"

text \<open>
  The host's \<^verbatim>\<open>writeFile\<close> (lines 107 to 122), on \<^verbatim>\<open>jsFileMap\<close> (an object: its keys
  in the order of their first assignment) and \<^verbatim>\<open>userCodeSourceMap\<close>.
\<close>

record cache_item =
  jsFileMap :: "(string \<times> string) list"
  userCodeSourceMap :: "string option"

fun assign :: "(string \<times> string) list \<Rightarrow> string \<Rightarrow> string \<Rightarrow> (string \<times> string) list" where
  "assign [] k v = [(k, v)]"
| "assign ((k', v') # kvs) k v = (if k' = k then (k, v) # kvs else (k', v') # assign kvs k v)"

definition writeFile :: "cache_item \<Rightarrow> string \<times> string \<Rightarrow> cache_item" where
  "writeFile item w =
     (let name = fst w; content = snd w; filenameSansExt = removeExt name in
      if endsWith name ''.map'' then
        (if removeExt filenameSansExt = USER_CODE_FILENAME
         then item\<lparr>userCodeSourceMap := Some content\<rparr>
         else item)
      else item\<lparr>jsFileMap := assign (jsFileMap item) filenameSansExt content\<rparr>)"

datatype ('a, 'e) result = Ok 'a | Err 'e

text \<open>
  The two \<^verbatim>\<open>forEach\<close> loops over the diagnostics (lines 150 to 163 and 167 to 175),
  on \<^verbatim>\<open>sourceErrors\<close>. A throw ends the loop and \<^verbatim>\<open>preProcess\<close>.
\<close>

definition unhandledDiagnostic :: "front_end \<Rightarrow> diagnostic \<Rightarrow> error" where
  "unhandledDiagnostic ts d =
     Error (''Unhandled diagnostic: '' @ numberToString (code d) @ '' ''
            @ flattenDiagnosticMessageText ts (messageText d))"

fun forEachPreEmitDiagnostic ::
  "front_end \<Rightarrow> (diagnostic \<Rightarrow> error + user_code_error) \<Rightarrow> diagnostic list
   \<Rightarrow> user_code_error list \<Rightarrow> error + user_code_error list" where
  "forEachPreEmitDiagnostic ts new [] sourceErrors = Inr sourceErrors"
| "forEachPreEmitDiagnostic ts new (d # ds) sourceErrors =
     (if dfile d \<noteq> None then
        andThen (new d) (\<lambda>e. forEachPreEmitDiagnostic ts new ds (sourceErrors @ [e]))
      else if list_ex (\<lambda>c. c \<in> set [1420]) (getDiagnosticCodes d) then
        forEachPreEmitDiagnostic ts new ds sourceErrors
      else Inl (unhandledDiagnostic ts d))"

fun forEachEmitDiagnostic ::
  "front_end \<Rightarrow> (diagnostic \<Rightarrow> error + user_code_error) \<Rightarrow> diagnostic list
   \<Rightarrow> user_code_error list \<Rightarrow> error + user_code_error list" where
  "forEachEmitDiagnostic ts new [] sourceErrors = Inr sourceErrors"
| "forEachEmitDiagnostic ts new (d # ds) sourceErrors =
     (if dfile d \<noteq> None then
        andThen (new d) (\<lambda>e. forEachEmitDiagnostic ts new ds (sourceErrors @ [e]))
      else Inl (unhandledDiagnostic ts d))"

text \<open>\<^verbatim>\<open>preProcess\<close> (line 36); \<open>mapper\<close> is \<^verbatim>\<open>this.mapDiagnosticMessage\<close>.\<close>

definition preProcess ::
  "front_end \<Rightarrow> (diagnostic \<Rightarrow> string list) \<Rightarrow> string \<Rightarrow> string \<Rightarrow> string list
   \<Rightarrow> source_file list \<Rightarrow> error + (cache_item, user_code_error list) result" where
  "preProcess ts mapper userCode outputType argsTypes additionalSourceFiles =
     (let files = tsFileMap ts userCode outputType argsTypes additionalSourceFiles;
          prog = compile ts userCode outputType argsTypes additionalSourceFiles;
          new = (\<lambda>d. new_UserCodeTypeError d files (getTypeChecker prog) mapper)
      in andThen (forEachPreEmitDiagnostic ts new (getPreEmitDiagnostics prog) [])
           (\<lambda>sourceErrors.
         andThen (forEachEmitDiagnostic ts new (diagnostics (emit prog)) sourceErrors)
           (\<lambda>sourceErrors.
              if sourceErrors \<noteq> [] then Inr (Err sourceErrors)
              else Inr (Ok (fold (\<lambda>w item. writeFile item w) (writes (emit prog))
                              \<lparr>jsFileMap = [], userCodeSourceMap = None\<rparr>)))))"

text \<open>
  The object that \<^verbatim>\<open>preProcess\<close> makes for a diagnostic \<open>d\<close> of the compilation,
  before any relocation.
\<close>

definition typeErrorOf ::
  "front_end \<Rightarrow> (diagnostic \<Rightarrow> string list) \<Rightarrow> string \<Rightarrow> string \<Rightarrow> string list
   \<Rightarrow> source_file list \<Rightarrow> diagnostic \<Rightarrow> type_error" where
  "typeErrorOf ts mapper userCode outputType argsTypes additionalSourceFiles d =
     \<lparr>diagnostic = d,
      sources = tsFileMap ts userCode outputType argsTypes additionalSourceFiles,
      typeChecker = getTypeChecker (compile ts userCode outputType argsTypes additionalSourceFiles),
      mapDiagnosticMessage = mapper\<rparr>"

text \<open>All diagnostics of a compilation: those before emit, then those of emit.\<close>

definition allDiagnostics ::
  "front_end \<Rightarrow> string \<Rightarrow> string \<Rightarrow> string list \<Rightarrow> source_file list \<Rightarrow> diagnostic list" where
  "allDiagnostics ts userCode outputType argsTypes additionalSourceFiles =
     getPreEmitDiagnostics (compile ts userCode outputType argsTypes additionalSourceFiles)
     @ diagnostics (emit (compile ts userCode outputType argsTypes additionalSourceFiles))"

section \<open>Execution\<close>

text \<open>
  A value of the sandbox is \<^verbatim>\<open>undefined\<close> or some other value; the execution context
  is an object from names to values. The sandbox, as the runner uses it: the specifiers
  that \<^verbatim>\<open>link\<close> asks the runner's linker to resolve, \<^verbatim>\<open>evaluate\<close> on the
  modules, the timeout and the context (the error it throws, if any, and the context it
  leaves), and the constructor of \<^verbatim>\<open>SourceMapConsumer\<close>. The emitted text of each
  module is taken to parse, so that \<^verbatim>\<open>new vm.SourceTextModule\<close> makes a module of it.
\<close>

datatype 'v js_value = Undefined | Val 'v

record 'v sandbox =
  requestedSpecifiers :: "(string \<times> string) list \<Rightarrow> string list"
  evaluate ::
    "(string \<times> string) list \<Rightarrow> int \<Rightarrow> (string \<Rightarrow> 'v js_value option)
     \<Rightarrow> js_error option \<times> (string \<Rightarrow> 'v js_value option)"
  SourceMapConsumer :: "string option \<Rightarrow> error + source_map_consumer"

text \<open>\<^verbatim>\<open>moduleCache\<close> (lines 219 to 228): one module for each entry of \<^verbatim>\<open>jsFileMap\<close>.\<close>

definition moduleCache :: "(string \<times> string) list \<Rightarrow> string \<Rightarrow> string option" where
  "moduleCache files = fold (\<lambda>entry m. m(fst entry \<mapsto> snd entry)) files Map.empty"

text \<open>
  \<^verbatim>\<open>executeUserCodeFromArtifacts\<close> (line 207): what it returns or throws, and the context
  it leaves.
\<close>

definition executeUserCodeFromArtifacts ::
  "'v sandbox \<Rightarrow> (string \<times> string) list \<Rightarrow> string option \<Rightarrow> 'v \<Rightarrow> int
   \<Rightarrow> (string \<Rightarrow> 'v js_value option)
   \<Rightarrow> (error + ('v js_value, user_code_error list) result) \<times> (string \<Rightarrow> 'v js_value option)" where
  "executeUserCodeFromArtifacts vm files sourceMapText args timeout ctx =
     (let ctx1 = ctx(''__args'' \<mapsto> Val args, ''__result'' \<mapsto> Undefined);
          modules = moduleCache files
      in case modules EXECUTION_HARNESS_FILENAME of
           None \<Rightarrow> (Inl TypeError, ctx1)
         | Some harnessModule \<Rightarrow>
             (case find (\<lambda>specifier. modules (removeExt specifier) = None)
                     (requestedSpecifiers vm files) of
                Some specifier \<Rightarrow>
                  (Inl (Error (''Unable to resolve dependency: '' @ specifier)), ctx1)
              | None \<Rightarrow>
                  (case evaluate vm files timeout ctx1 of
                     (None, ctx2) \<Rightarrow>
                       (let r = (case ctx2 ''__result'' of None \<Rightarrow> Undefined | Some v \<Rightarrow> v)
                        in (Inr (Ok r), ctx2(''__args'' := None, ''__result'' := None)))
                   | (Some err, ctx2) \<Rightarrow>
                       (case SourceMapConsumer vm sourceMapText of
                          Inl e \<Rightarrow> (Inl e, ctx2)
                        | Inr consumer \<Rightarrow>
                            (case new_UserCodeRuntimeError err consumer of
                               Inl e \<Rightarrow> (Inl e, ctx2)
                             | Inr runtimeError \<Rightarrow>
                                 (Inr (Err [UserCodeRuntimeError runtimeError]), ctx2))))))"


section \<open>Diagnostics that are ignored or fatal\<close>




section \<open>Ranges inside the user unit\<close>




section \<open>Example compilations\<close>

text \<open>
  The syntax tree of the harness for the declared return type \<^verbatim>\<open>number\<close> and the
  declared argument types \<^verbatim>\<open>[string]\<close>, with no auxiliary import: the nodes that the
  relocation reads, with their positions in the text of the harness.
\<close>

definition harness_import :: node where
  "harness_import =
     Node 6 ImportDeclaration 11 51 [(Node 0 Token 11 17 [] []), (Node 2 ImportClause 18 31
       [(Node 1 Identifier 18 31 [] [])] []), (Node 3 Token 32 36 [] []), (Node 4
       StringLiteral 37 50 [] []), (Node 5 Token 50 51 [] [])] []"

definition harness_argumentType :: node where
  "harness_argumentType =
     Node 11 TupleType 110 118 [(Node 7 Token 110 111 [] []), (Node 9 SyntaxList 111 117
       [(Node 8 KeywordType 111 117 [] [])] []), (Node 10 Token 117 118 [] [])] []"

definition harness_argsDeclaration :: node where
  "harness_argsDeclaration =
     Node 14 VariableDeclaration 102 118 [(Node 12 Identifier 102 108 [] []), (Node 13 Token
       108 109 [] []), harness_argumentType] [(''type'', [harness_argumentType])]"

definition harness_argsDeclarationList :: node where
  "harness_argsDeclarationList =
     Node 17 VariableDeclarationList 96 118 [(Node 15 Token 96 101 [] []), (Node 16
       SyntaxList 102 118 [harness_argsDeclaration] [])] [(''declarations'',
       [harness_argsDeclaration])]"

definition harness_argsStatement :: node where
  "harness_argsStatement =
     Node 19 VariableStatement 96 119 [harness_argsDeclarationList, (Node 18 Token 118 119 []
       [])] [(''declarationList'', [harness_argsDeclarationList])]"

definition harness_outputType :: node where
  "harness_outputType =
     Node 29 UnionType 142 166 [(Node 28 SyntaxList 142 166 [(Node 20 KeywordType 142 148 []
       []), (Node 21 Token 149 150 [] []), (Node 27 TypeReference 151 166 [(Node 22
       Identifier 151 158 [] []), (Node 23 Token 158 159 [] []), (Node 25 SyntaxList 159 165
       [(Node 24 KeywordType 159 165 [] [])] []), (Node 26 Token 165 166 [] [])] [])] [])] []"

definition harness_resultDeclaration :: node where
  "harness_resultDeclaration =
     Node 32 VariableDeclaration 132 166 [(Node 30 Identifier 132 140 [] []), (Node 31 Token
       140 141 [] []), harness_outputType] [(''type'', [harness_outputType])]"

definition harness_resultDeclarationList :: node where
  "harness_resultDeclarationList =
     Node 35 VariableDeclarationList 128 166 [(Node 33 Token 128 131 [] []), (Node 34
       SyntaxList 132 166 [harness_resultDeclaration] [])] [(''declarations'',
       [harness_resultDeclaration])]"

definition harness_resultStatement :: node where
  "harness_resultStatement =
     Node 37 VariableStatement 128 167 [harness_resultDeclarationList, (Node 36 Token 166 167
       [] [])] [(''declarationList'', [harness_resultDeclarationList])]"

definition harness_moduleBlock :: node where
  "harness_moduleBlock =
     Node 41 ModuleBlock 86 175 [(Node 38 Token 86 87 [] []), (Node 39 SyntaxList 96 167
       [harness_argsStatement, harness_resultStatement] []), (Node 40 Token 174 175 [] [])]
       [(''statements'', [harness_argsStatement, harness_resultStatement])]"

definition harness_moduleDeclaration :: node where
  "harness_moduleDeclaration =
     Node 45 ModuleDeclaration 71 175 [(Node 43 SyntaxList 71 78 [(Node 42 Token 71 78 []
       [])] []), (Node 44 Identifier 79 85 [] []), harness_moduleBlock] [(''body'',
       [harness_moduleBlock])]"

definition harness_result :: node where
  "harness_result =
     Node 46 Identifier 182 190 [] []"

definition harness_callee :: node where
  "harness_callee =
     Node 47 Identifier 193 206 [] []"

definition harness_arguments :: node where
  "harness_arguments =
     Node 51 SyntaxList 207 216 [(Node 50 SpreadElement 207 216 [(Node 48 Token 207 210 []
       []), (Node 49 Identifier 210 216 [] [])] [])] []"

definition harness_call :: node where
  "harness_call =
     Node 54 CallExpression 193 217 [harness_callee, (Node 52 Token 206 207 [] []),
       harness_arguments, (Node 53 Token 216 217 [] [])] [(''expression'', [harness_callee])]"

definition harness_assignment :: node where
  "harness_assignment =
     Node 56 BinaryExpression 182 217 [harness_result, (Node 55 Token 191 192 [] []),
       harness_call] [(''left'', [harness_result]), (''right'', [harness_call])]"

definition harness_statement :: node where
  "harness_statement =
     Node 58 ExpressionStatement 182 218 [harness_assignment, (Node 57 Token 217 218 [] [])]
       [(''expression'', [harness_assignment])]"

definition harness_condition :: node where
  "harness_condition =
     Node 68 BinaryExpression 236 272 [(Node 65 ParenthesizedExpression 236 253 [(Node 59
       Token 236 237 [] []), (Node 63 AsExpression 237 252 [(Node 60 Identifier 237 245 []
       []), (Node 61 Token 246 248 [] []), (Node 62 KeywordType 249 252 [] [])] []), (Node 64
       Token 252 253 [] [])] []), (Node 66 Token 254 264 [] []), (Node 67 Identifier 265 272
       [] [])] []"

definition harness_asyncResult :: node where
  "harness_asyncResult =
     Node 69 Identifier 283 291 [] []"

definition harness_await :: node where
  "harness_await =
     Node 72 AwaitExpression 294 308 [(Node 70 Token 294 299 [] []), (Node 71 Identifier 300
       308 [] [])] []"

definition harness_asyncAssignment :: node where
  "harness_asyncAssignment =
     Node 74 BinaryExpression 283 308 [harness_asyncResult, (Node 73 Token 292 293 [] []),
       harness_await] [(''left'', [harness_asyncResult]), (''right'', [harness_await])]"

definition harness_asyncStatement :: node where
  "harness_asyncStatement =
     Node 76 ExpressionStatement 283 309 [harness_asyncAssignment, (Node 75 Token 308 309 []
       [])] [(''expression'', [harness_asyncAssignment])]"

definition harness_thenBlock :: node where
  "harness_thenBlock =
     Node 80 Block 274 317 [(Node 77 Token 274 275 [] []), (Node 78 SyntaxList 283 309
       [harness_asyncStatement] []), (Node 79 Token 316 317 [] [])] [(''statements'',
       [harness_asyncStatement])]"

definition harness_ifStatement :: node where
  "harness_ifStatement =
     Node 84 IfStatement 232 317 [(Node 81 Token 232 234 [] []), (Node 82 Token 235 236 []
       []), harness_condition, (Node 83 Token 272 273 [] []), harness_thenBlock]
       [(''expression'', [harness_condition]), (''thenStatement'', [harness_thenBlock])]"

definition harness_root :: node where
  "harness_root =
     Node 87 SourceFile 11 322 [(Node 85 SyntaxList 11 317 [harness_import,
       harness_moduleDeclaration, harness_statement, harness_ifStatement] []), (Node 86
       EndOfFileToken 322 322 [] [])] [(''statements'', [harness_import,
       harness_moduleDeclaration, harness_statement, harness_ifStatement])]"

text \<open>
  Five user units and their syntax trees: a function whose return type is not the
  declared one, a unit without a default export (its first token on the third line), a
  function with a parameter more than declared, a function with a type error in its
  body, and a function of the declared type that throws.
\<close>

definition user1_text :: string where
  "user1_text =
     ''export default function f(x: string): string { return x; }''"

definition user1_name :: node where
  "user1_name =
     Node 100 Identifier 24 25 [] []"

definition user1_parameter1 :: node where
  "user1_parameter1 =
     Node 104 Parameter 26 35 [(Node 101 Identifier 26 27 [] []), (Node 102 Token 27 28 []
       []), (Node 103 KeywordType 29 35 [] [])] []"

definition user1_returnType :: node where
  "user1_returnType =
     Node 105 KeywordType 38 44 [] []"

definition user1_body :: node where
  "user1_body =
     Node 113 Block 45 58 [(Node 110 Token 45 46 [] []), (Node 111 SyntaxList 47 56 [(Node
       109 ReturnStatement 47 56 [(Node 106 Token 47 53 [] []), (Node 107 Identifier 54 55 []
       []), (Node 108 Token 55 56 [] [])] [])] []), (Node 112 Token 57 58 [] [])] []"

definition user1_function :: node where
  "user1_function =
     Node 122 FunctionDeclaration 0 58 [(Node 116 SyntaxList 0 14 [(Node 114 Token 0 6 []
       []), (Node 115 Token 7 14 [] [])] []), (Node 117 Token 15 23 [] []), user1_name, (Node
       118 Token 25 26 [] []), (Node 119 SyntaxList 26 35 [user1_parameter1] []), (Node 120
       Token 35 36 [] []), (Node 121 Token 36 37 [] []), user1_returnType, user1_body]
       [(''name'', [user1_name]), (''parameters'', [user1_parameter1]), (''type'',
       [user1_returnType]), (''body'', [user1_body])]"

definition user1_root :: node where
  "user1_root =
     Node 125 SourceFile 0 58 [(Node 123 SyntaxList 0 58 [user1_function] []), (Node 124
       EndOfFileToken 58 58 [] [])] [(''statements'', [user1_function])]"

definition user2_text :: string where
  "user2_text =
     [CHR 0x0A, CHR 0x0A] @ ''const n: number = '' @ [CHR 0x27] @ ''hello'' @ [CHR 0x27] @
       '';''"

definition user2_statement :: node where
  "user2_statement =
     Node 310 VariableStatement 2 28 [(Node 308 VariableDeclarationList 2 27 [(Node 306 Token
       2 7 [] []), (Node 307 SyntaxList 8 27 [(Node 305 VariableDeclaration 8 27 [(Node 300
       Identifier 8 9 [] []), (Node 301 Token 9 10 [] []), (Node 302 KeywordType 11 17 []
       []), (Node 303 Token 18 19 [] []), (Node 304 StringLiteral 20 27 [] [])] [])] [])]
       []), (Node 309 Token 27 28 [] [])] []"

definition user2_root :: node where
  "user2_root =
     Node 313 SourceFile 2 28 [(Node 311 SyntaxList 2 28 [user2_statement] []), (Node 312
       EndOfFileToken 28 28 [] [])] [(''statements'', [user2_statement])]"

definition user3_text :: string where
  "user3_text =
     ''export default function g(x: string, y: number): number { return y; }''"

definition user3_name :: node where
  "user3_name =
     Node 200 Identifier 24 25 [] []"

definition user3_parameter1 :: node where
  "user3_parameter1 =
     Node 204 Parameter 26 35 [(Node 201 Identifier 26 27 [] []), (Node 202 Token 27 28 []
       []), (Node 203 KeywordType 29 35 [] [])] []"

definition user3_parameter2 :: node where
  "user3_parameter2 =
     Node 208 Parameter 37 46 [(Node 205 Identifier 37 38 [] []), (Node 206 Token 38 39 []
       []), (Node 207 KeywordType 40 46 [] [])] []"

definition user3_returnType :: node where
  "user3_returnType =
     Node 210 KeywordType 49 55 [] []"

definition user3_body :: node where
  "user3_body =
     Node 218 Block 56 69 [(Node 215 Token 56 57 [] []), (Node 216 SyntaxList 58 67 [(Node
       214 ReturnStatement 58 67 [(Node 211 Token 58 64 [] []), (Node 212 Identifier 65 66 []
       []), (Node 213 Token 66 67 [] [])] [])] []), (Node 217 Token 68 69 [] [])] []"

definition user3_function :: node where
  "user3_function =
     Node 227 FunctionDeclaration 0 69 [(Node 221 SyntaxList 0 14 [(Node 219 Token 0 6 []
       []), (Node 220 Token 7 14 [] [])] []), (Node 222 Token 15 23 [] []), user3_name, (Node
       223 Token 25 26 [] []), (Node 224 SyntaxList 26 46 [user3_parameter1, (Node 209 Token
       35 36 [] []), user3_parameter2] []), (Node 225 Token 46 47 [] []), (Node 226 Token 47
       48 [] []), user3_returnType, user3_body] [(''name'', [user3_name]), (''parameters'',
       [user3_parameter1, user3_parameter2]), (''type'', [user3_returnType]), (''body'',
       [user3_body])]"

definition user3_root :: node where
  "user3_root =
     Node 230 SourceFile 0 69 [(Node 228 SyntaxList 0 69 [user3_function] []), (Node 229
       EndOfFileToken 69 69 [] [])] [(''statements'', [user3_function])]"

definition user4_text :: string where
  "user4_text =
     ''export default function f(x: string): number {'' @ [CHR 0x0A] @ ''  const other:
       number = '' @ [CHR 0x27] @ ''hello'' @ [CHR 0x27] @ '';'' @ [CHR 0x0A] @ ''  return
       1;'' @ [CHR 0x0A] @ ''}''"

definition user4_name :: node where
  "user4_name =
     Node 400 Identifier 24 25 [] []"

definition user4_parameter1 :: node where
  "user4_parameter1 =
     Node 404 Parameter 26 35 [(Node 401 Identifier 26 27 [] []), (Node 402 Token 27 28 []
       []), (Node 403 KeywordType 29 35 [] [])] []"

definition user4_returnType :: node where
  "user4_returnType =
     Node 405 KeywordType 38 44 [] []"

definition user4_body :: node where
  "user4_body =
     Node 424 Block 45 93 [(Node 421 Token 45 46 [] []), (Node 422 SyntaxList 49 91 [(Node
       416 VariableStatement 49 79 [(Node 414 VariableDeclarationList 49 78 [(Node 412 Token
       49 54 [] []), (Node 413 SyntaxList 55 78 [(Node 411 VariableDeclaration 55 78 [(Node
       406 Identifier 55 60 [] []), (Node 407 Token 60 61 [] []), (Node 408 KeywordType 62 68
       [] []), (Node 409 Token 69 70 [] []), (Node 410 StringLiteral 71 78 [] [])] [])] [])]
       []), (Node 415 Token 78 79 [] [])] []), (Node 420 ReturnStatement 82 91 [(Node 417
       Token 82 88 [] []), (Node 418 NumericLiteral 89 90 [] []), (Node 419 Token 90 91 []
       [])] [])] []), (Node 423 Token 92 93 [] [])] []"

definition user4_function :: node where
  "user4_function =
     Node 433 FunctionDeclaration 0 93 [(Node 427 SyntaxList 0 14 [(Node 425 Token 0 6 []
       []), (Node 426 Token 7 14 [] [])] []), (Node 428 Token 15 23 [] []), user4_name, (Node
       429 Token 25 26 [] []), (Node 430 SyntaxList 26 35 [user4_parameter1] []), (Node 431
       Token 35 36 [] []), (Node 432 Token 36 37 [] []), user4_returnType, user4_body]
       [(''name'', [user4_name]), (''parameters'', [user4_parameter1]), (''type'',
       [user4_returnType]), (''body'', [user4_body])]"

definition user4_root :: node where
  "user4_root =
     Node 436 SourceFile 0 93 [(Node 434 SyntaxList 0 93 [user4_function] []), (Node 435
       EndOfFileToken 93 93 [] [])] [(''statements'', [user4_function])]"


definition user5_name :: node where
  "user5_name =
     Node 600 Identifier 24 25 [] []"

definition user5_parameter1 :: node where
  "user5_parameter1 =
     Node 604 Parameter 26 35 [(Node 601 Identifier 26 27 [] []), (Node 602 Token 27 28 []
       []), (Node 603 KeywordType 29 35 [] [])] []"

definition user5_returnType :: node where
  "user5_returnType =
     Node 605 KeywordType 38 44 [] []"

definition user5_body :: node where
  "user5_body =
     Node 619 Block 45 68 [(Node 616 Token 45 46 [] []), (Node 617 SyntaxList 47 66 [(Node
       615 ThrowStatement 47 66 [(Node 606 Token 47 52 [] []), (Node 613 NewExpression 53 65
       [(Node 607 Token 53 56 [] []), (Node 608 Identifier 57 62 [] []), (Node 609 Token 62
       63 [] []), (Node 611 SyntaxList 63 64 [(Node 610 Identifier 63 64 [] [])] []), (Node
       612 Token 64 65 [] [])] []), (Node 614 Token 65 66 [] [])] [])] []), (Node 618 Token
       67 68 [] [])] []"

definition user5_function :: node where
  "user5_function =
     Node 628 FunctionDeclaration 0 68 [(Node 622 SyntaxList 0 14 [(Node 620 Token 0 6 []
       []), (Node 621 Token 7 14 [] [])] []), (Node 623 Token 15 23 [] []), user5_name, (Node
       624 Token 25 26 [] []), (Node 625 SyntaxList 26 35 [user5_parameter1] []), (Node 626
       Token 35 36 [] []), (Node 627 Token 36 37 [] []), user5_returnType, user5_body]
       [(''name'', [user5_name]), (''parameters'', [user5_parameter1]), (''type'',
       [user5_returnType]), (''body'', [user5_body])]"

definition user5_root :: node where
  "user5_root =
     Node 631 SourceFile 0 68 [(Node 629 SyntaxList 0 68 [user5_function] []), (Node 630
       EndOfFileToken 68 68 [] [])] [(''statements'', [user5_function])]"

text \<open>The parser on these texts.\<close>

definition example_parse :: "string \<Rightarrow> string \<Rightarrow> node" where
  "example_parse name content =
     (if name = EXECUTION_HARNESS_FILENAME then harness_root
      else if content = user1_text then user1_root
      else if content = user2_text then user2_root
      else if content = user3_text then user3_root
      else if content = user4_text then user4_root
      else user5_root)"

text \<open>Types, symbols and type checkers of the examples.\<close>

definition stringType :: ts_type where
  "stringType = TsType 1 []"

definition numberType :: ts_type where
  "numberType = TsType 2 []"

definition example_typeToString :: "ts_type \<Rightarrow> string" where
  "example_typeToString t =
     (if type_id t = 1 then ''string'' else if type_id t = 2 then ''number'' else ''Function'')"

definition moduleSymbol :: "node \<Rightarrow> symbol" where
  "moduleSymbol root =
     \<lparr>escapedName = [CHR 0x22] @ ''__user_file'' @ [CHR 0x22], flags = 512,
      valueDeclaration = Some root, declarations = Some [root]\<rparr>"

definition parameterSymbol :: "string \<Rightarrow> node \<Rightarrow> symbol" where
  "parameterSymbol name declaration =
     \<lparr>escapedName = name, flags = 1,
      valueDeclaration = Some declaration, declarations = Some [declaration]\<rparr>"

definition defaultFunctionSymbol :: "node \<Rightarrow> symbol" where
  "defaultFunctionSymbol declaration =
     \<lparr>escapedName = ''default'', flags = 16,
      valueDeclaration = Some declaration, declarations = Some [declaration]\<rparr>"

definition functionChecker :: "node \<Rightarrow> node \<Rightarrow> ts_type \<Rightarrow> symbol list \<Rightarrow> type_checker" where
  "functionChecker root declaration returnType parameters =
     \<lparr>getSymbolAtLocation = (\<lambda>sf. Some (moduleSymbol root)),
      getExportsOfModule = (\<lambda>s. [defaultFunctionSymbol declaration]),
      getAliasedSymbol = (\<lambda>s. None),
      getTypeAtLocation = (\<lambda>n. TsType 3 [Signature returnType parameters]),
      typeToString = example_typeToString,
      getTypeOfSymbolAtLocation =
        (\<lambda>p sf. if escapedName p = ''y'' then numberType else stringType)\<rparr>"

definition scriptChecker :: type_checker where
  "scriptChecker =
     \<lparr>getSymbolAtLocation = (\<lambda>sf. None),
      getExportsOfModule = (\<lambda>s. []),
      getAliasedSymbol = (\<lambda>s. None),
      getTypeAtLocation = (\<lambda>n. TsType 0 []),
      typeToString = example_typeToString,
      getTypeOfSymbolAtLocation = (\<lambda>p sf. TsType 0 [])\<rparr>"

definition example_flatten :: "message_text \<Rightarrow> string" where
  "example_flatten m = (case m of Text t \<Rightarrow> t | Chain c \<Rightarrow> chain_messageText c)"

definition example_mapper :: "diagnostic \<Rightarrow> string list" where
  "example_mapper d = [example_flatten (messageText d)]"

definition example_writes :: "string \<Rightarrow> (string \<times> string) list" where
  "example_writes userModule =
     [(''__user_file.js'', userModule),
      (''__user_file.js.map'', ''{}''),
      (''__execution_harness.js'', ''import defaultExport from '' @ [CHR 0x27] @ ''__user_file'' @ [CHR 0x27]),
      (''__execution_harness.js.map'', ''{}'')]"



text \<open>
  Example 2: no default export, and a type error in the user unit; the compiler reports
  the import in the harness and the initializer in the user unit.
\<close>

definition example2_harnessDiagnostic :: "source_file option \<Rightarrow> diagnostic" where
  "example2_harnessDiagnostic harnessFile =
     \<lparr>dfile = harnessFile, start = Some 37, dlength = Some 13, code = 2306,
        messageText = Text (''File '' @ [CHR 0x27] @ ''__user_file.ts'' @ [CHR 0x27] @ '' is not a module.'')\<rparr>"

definition example2_userDiagnostic :: "source_file option \<Rightarrow> diagnostic" where
  "example2_userDiagnostic userFile =
     \<lparr>dfile = userFile, start = Some 8, dlength = Some 1, code = 2322,
        messageText = Text (''Type '' @ [CHR 0x27] @ ''string'' @ [CHR 0x27] @ '' is not assignable to type '' @ [CHR 0x27] @ ''number'' @ [CHR 0x27] @ ''.'')\<rparr>"

definition example2 :: front_end where
  "example2 =
     \<lparr>parseSourceFile = example_parse,
      createProgram = (\<lambda>roots files.
        \<lparr>getPreEmitDiagnostics =
           [example2_harnessDiagnostic (files EXECUTION_HARNESS_FILENAME),
            example2_userDiagnostic (files USER_CODE_FILENAME)],
         emit = \<lparr>diagnostics = [], writes = example_writes
                  (''const n = '' @ [CHR 0x27] @ ''hello'' @ [CHR 0x27] @ '';'')\<rparr>,
         getTypeChecker = scriptChecker\<rparr>),
      flattenDiagnosticMessageText = example_flatten\<rparr>"

text \<open>
  Example 3: the default export takes two parameters and one argument type is declared;
  the compiler reports the call in the harness.
\<close>

definition example3_diagnostic :: "source_file option \<Rightarrow> diagnostic" where
  "example3_diagnostic harnessFile =
     \<lparr>dfile = harnessFile, start = Some 193, dlength = Some 24, code = 2554,
        messageText = Text (''Expected 2 arguments, but got 1.'')\<rparr>"

definition example3 :: front_end where
  "example3 =
     \<lparr>parseSourceFile = example_parse,
      createProgram = (\<lambda>roots files.
        \<lparr>getPreEmitDiagnostics = [example3_diagnostic (files EXECUTION_HARNESS_FILENAME)],
         emit = \<lparr>diagnostics = [], writes = example_writes
                  ''export default function g(x, y) { return y; }''\<rparr>,
         getTypeChecker =
           functionChecker user3_root user3_function numberType
             [parameterSymbol ''x'' user3_parameter1, parameterSymbol ''y'' user3_parameter2]\<rparr>),
      flattenDiagnosticMessageText = example_flatten\<rparr>"







text \<open>
  Example executions: the modules of a compilation, a source map, and sandboxes whose
  evaluation throws: in the user function; below an auxiliary module whose name ends with
  the name of the user unit; and in an auxiliary module alone.
\<close>

definition example_files :: "(string \<times> string) list" where
  "example_files =
     [(''__user_file'', ''export default function f(x) { throw new Error(x); }''),
      (''__execution_harness'', ''import defaultExport from '' @ [CHR 0x27] @ ''__user_file'' @ [CHR 0x27])]"

definition example_consumer :: source_map_consumer where
  "example_consumer l c =
     (if l = Some 2 \<and> c = Some 9 then \<lparr>line = Some 2, column = Some 8\<rparr>
      else if l = Some 1 \<and> c = Some 9 then \<lparr>line = Some 7, column = Some 8\<rparr>
      else \<lparr>line = None, column = None\<rparr>)"

definition userFrame :: stack_frame where
  "userFrame =
     \<lparr>getFileName = Some ''__user_file'', getFunctionName = Some ''f'',
      getLineNumber = Some 2, getColumnNumber = Some 9\<rparr>"

definition harnessFrame :: stack_frame where
  "harnessFrame =
     \<lparr>getFileName = Some ''__execution_harness'', getFunctionName = None,
      getLineNumber = Some 3, getColumnNumber = Some 16\<rparr>"


definition userError :: js_error where
  "userError = \<lparr>error_message = ''This is a test error'', parse = [userFrame, harnessFrame]\<rparr>"



definition throwingSandbox :: "js_error \<Rightarrow> string sandbox" where
  "throwingSandbox err =
     \<lparr>requestedSpecifiers = (\<lambda>files. [''__user_file'']),
      evaluate = (\<lambda>files timeout ctx. (Some err, ctx)),
      SourceMapConsumer = (\<lambda>content. Inr example_consumer)\<rparr>"



definition example2_error :: type_error where
  "example2_error =
     typeErrorOf example2 example_mapper user2_text ''number'' [''string''] []
       (example2_harnessDiagnostic
          (tsFileMap example2 user2_text ''number'' [''string''] [] EXECUTION_HARNESS_FILENAME))"

definition example3_error :: type_error where
  "example3_error =
     typeErrorOf example3 example_mapper user3_text ''number'' [''string''] []
       (example3_diagnostic
          (tsFileMap example3 user3_text ''number'' [''string''] [] EXECUTION_HARNESS_FILENAME))"

definition harness_file :: source_file where
  "harness_file =
     \<lparr>fileName = EXECUTION_HARNESS_FILENAME,
      fileText = executionCode [''string''] ''number'' [],
      ast = harness_root\<rparr>"

definition user_file :: "string \<Rightarrow> node \<Rightarrow> source_file" where
  "user_file content root = \<lparr>fileName = USER_CODE_FILENAME, fileText = content, ast = root\<rparr>"












section \<open>Basic facts\<close>

lemma andThen_Inr [simp]: "andThen (Inr x) f = f x"
  by (simp add: andThen_def)

lemma andThen_Inl [simp]: "andThen (Inl e) f = Inl e"
  by (simp add: andThen_def)

lemma defined_Some [simp]: "defined (Some x) = Inr x"
  by (simp add: defined_def)

lemma defined_None [simp]: "defined None = Inl TypeError"
  by (simp add: defined_def)



lemma getDescendentPath_last:
  "getDescendentPath n from to \<noteq> []
   \<and> last (getDescendentPath n from to) = getDescendentAtLocation n from to"
  "descendInto m cs from to
     = (if descendPathInto cs from to = [] then m else last (descendPathInto cs from to))"
  by (induction n "from" to and m cs "from" to rule: getDescendentAtLocation_descendInto.induct)
     simp_all

lemma example_modules:
  "moduleCache example_files EXECUTION_HARNESS_FILENAME
     = Some (''import defaultExport from '' @ [CHR 0x27] @ ''__user_file'' @ [CHR 0x27])"
  "moduleCache example_files (removeExt ''__user_file'')
     = Some ''export default function f(x) { throw new Error(x); }''"
  by code_simp+

lemma forEachPreEmitDiagnostic_collects:
  assumes "\<forall>d \<in> set ds. dfile d \<noteq> None \<and> new d = Inr (g d)"
  shows "forEachPreEmitDiagnostic ts new ds acc = Inr (acc @ map g ds)"
  using assms by (induction ds arbitrary: acc) auto

lemma forEachEmitDiagnostic_collects:
  assumes "\<forall>d \<in> set ds. dfile d \<noteq> None \<and> new d = Inr (g d)"
  shows "forEachEmitDiagnostic ts new ds acc = Inr (acc @ map g ds)"
  using assms by (induction ds arbitrary: acc) auto

lemma preProcess_collects:
  assumes some: "allDiagnostics ts userCode outputType argsTypes aux \<noteq> []"
    and new: "\<forall>d \<in> set (allDiagnostics ts userCode outputType argsTypes aux).
                dfile d \<noteq> None
                \<and> new_UserCodeTypeError d (tsFileMap ts userCode outputType argsTypes aux)
                     (getTypeChecker (compile ts userCode outputType argsTypes aux)) mapper
                   = Inr (g d)"
  shows "preProcess ts mapper userCode outputType argsTypes aux
           = Inr (Err (map g (allDiagnostics ts userCode outputType argsTypes aux)))"
proof -
  let ?prog = "compile ts userCode outputType argsTypes aux"
  let ?new = "\<lambda>d. new_UserCodeTypeError d (tsFileMap ts userCode outputType argsTypes aux)
                     (getTypeChecker ?prog) mapper"
  have pre: "forEachPreEmitDiagnostic ts ?new (getPreEmitDiagnostics ?prog) []
               = Inr ([] @ map g (getPreEmitDiagnostics ?prog))"
    by (rule forEachPreEmitDiagnostic_collects) (use new in \<open>simp add: allDiagnostics_def\<close>)
  have em: "forEachEmitDiagnostic ts ?new (diagnostics (emit ?prog))
               (map g (getPreEmitDiagnostics ?prog))
               = Inr (map g (getPreEmitDiagnostics ?prog) @ map g (diagnostics (emit ?prog)))"
    by (rule forEachEmitDiagnostic_collects) (use new in \<open>simp add: allDiagnostics_def\<close>)
  show ?thesis
    using some pre em by (simp add: preProcess_def Let_def allDiagnostics_def)
qed

lemma new_UserCodeTypeError_cases:
  "new_UserCodeTypeError d srcs checker mapper
     = (if isHarnessDiagnostic d
        then (case new_ExecutionHarnessTypeError
                     \<lparr>diagnostic = d, sources = srcs, typeChecker = checker,
                      mapDiagnosticMessage = mapper\<rparr> of
                Inl e \<Rightarrow> Inl e
              | Inr relocated \<Rightarrow> Inr (ExecutionHarnessTypeError relocated))
        else Inr (UserCodeTypeError \<lparr>diagnostic = d, sources = srcs, typeChecker = checker,
                                     mapDiagnosticMessage = mapper\<rparr>))"
  by (simp add: new_UserCodeTypeError_def Let_def andThen_def split: sum.splits)


lemma harnessNodeText_harness:
  assumes "harnessNodeText this getter = Inr t"
  shows "\<exists>hf. sources this EXECUTION_HARNESS_FILENAME = Some hf"
  using assms
  by (cases "sources this EXECUTION_HARNESS_FILENAME")
     (auto simp: harnessNodeText_def andThen_def split: sum.splits option.splits)

lemma fold_min_le:
  "fold min xs (a::int) \<le> a \<and> (\<forall>x \<in> set xs. fold min xs a \<le> x)"
proof (induction xs arbitrary: a)
  case Nil
  show ?case by simp
next
  case (Cons y ys)
  from Cons [of "min y a"] show ?case by auto
qed

lemma fold_max_ge:
  "(a::int) \<le> fold max xs a \<and> (\<forall>x \<in> set xs. x \<le> fold max xs a)"
proof (induction xs arbitrary: a)
  case Nil
  show ?case by simp
next
  case (Cons y ys)
  from Cons [of "max y a"] show ?case by auto
qed

lemma Math_min_le:
  assumes "x \<in> set xs"
  shows "Math_min xs \<le> x"
  using assms fold_min_le by (cases xs) auto

lemma Math_max_ge:
  assumes "x \<in> set xs"
  shows "x \<le> Math_max xs"
  using assms fold_max_ge by (cases xs) auto


lemma user_file_sel [simp]:
  "ast (user_file content root) = root"
  "fileText (user_file content root) = content"
  "fileName (user_file content root) = USER_CODE_FILENAME"
  by (simp_all add: user_file_def)

section \<open>Runtime errors: the stack, the location, and failures outside the user code\<close>






section \<open>The ambient bindings of the execution context\<close>

text \<open>
  When evaluation returns, \<^verbatim>\<open>__args\<close> and \<^verbatim>\<open>__result\<close> are deleted from the context
  that evaluation left, and nothing else of it is changed.
\<close>

lemma bindings_removed_on_success:
  assumes harness: "moduleCache files EXECUTION_HARNESS_FILENAME = Some harnessModule"
    and linked: "find (\<lambda>specifier. moduleCache files (removeExt specifier) = None)
                   (requestedSpecifiers vm files) = None"
    and returned: "evaluate vm files timeout (ctx(''__args'' \<mapsto> Val args, ''__result'' \<mapsto> Undefined))
                   = (None, ctx')"
  shows "snd (executeUserCodeFromArtifacts vm files sourceMapText args timeout ctx)
           = ctx'(''__args'' := None, ''__result'' := None)"
  using harness linked returned
  by (simp add: executeUserCodeFromArtifacts_def Let_def)

text \<open>
  C3, on the path of a runtime error in the user code. The sandbox throws in the user
  function; \<^verbatim>\<open>executeUserCodeFromArtifacts\<close>, called on an empty context, returns
  \<^verbatim>\<open>Err\<close> with the runtime error, and the context it leaves still binds \<^verbatim>\<open>__args\<close>
  to the arguments and \<^verbatim>\<open>__result\<close> to \<^verbatim>\<open>undefined\<close>: the catch branch of line 246
  has no \<^verbatim>\<open>delete\<close>.
\<close>

theorem bindings_left_after_runtime_error:
  "fst (executeUserCodeFromArtifacts (throwingSandbox userError) example_files (Some ''{}'')
          ''hello'' 5000 Map.empty)
     = Inr (Err [UserCodeRuntimeError
                   \<lparr>error = userError, sourceMap = example_consumer, stackFrames = parse userError\<rparr>])
   \<and> snd (executeUserCodeFromArtifacts (throwingSandbox userError) example_files (Some ''{}'')
            ''hello'' 5000 Map.empty) ''__args'' = Some (Val ''hello'')
   \<and> snd (executeUserCodeFromArtifacts (throwingSandbox userError) example_files (Some ''{}'')
            ''hello'' 5000 Map.empty) ''__result'' = Some Undefined"
  by (simp add: executeUserCodeFromArtifacts_def Let_def example_modules throwingSandbox_def
      new_UserCodeRuntimeError_def userError_def userFrame_def USER_CODE_FILENAME_def)

section \<open>Relocation of harness diagnostics\<close>







text \<open>Facts about example 3, by evaluation.\<close>

lemma ex3:
  "sources example3_error EXECUTION_HARNESS_FILENAME = Some harness_file"
  "sources example3_error USER_CODE_FILENAME = Some (user_file user3_text user3_root)"
  "defaultExportSymbol example3_error = Inr (Some (defaultFunctionSymbol user3_function))"
  "defaultExportNode example3_error = Inr (Some user3_function)"
  "defaultExportNodeType example3_error
     = Inr (Some (TsType 3 [Signature numberType
                    [parameterSymbol ''x'' user3_parameter1, parameterSymbol ''y'' user3_parameter2]]))"
  "isReturnTypeAnchor example3_error
     (locate (ast harness_file) (start (diagnostic example3_error))
        (dlength (diagnostic example3_error))) = Inr False"
  "isArgumentTypeAnchor example3_error
     (locate (ast harness_file) (start (diagnostic example3_error))
        (dlength (diagnostic example3_error))) = Inr True"
  "harnessNodeText example3_error (argumentTypeNode example3_error) = Inr ''[string]''"
  "valueDeclarations [parameterSymbol ''x'' user3_parameter1, parameterSymbol ''y'' user3_parameter2]
     = Inr [user3_parameter1, user3_parameter2]"
  by code_simp+

lemma ex3_values:
  "Math_min [getStart user3_parameter1, getStart user3_parameter2] = 26"
  "Math_max [getEnd user3_parameter1, getEnd user3_parameter2] = 46"
  "code (diagnostic example3_error) = 2554"
  "numberToString 2554 = ''2554''"
  "typeToString (typeChecker example3_error)
     (getTypeOfSymbolAtLocation (typeChecker example3_error)
        (parameterSymbol ''x'' user3_parameter1) (user_file user3_text user3_root)) = ''string''"
  "typeToString (typeChecker example3_error)
     (getTypeOfSymbolAtLocation (typeChecker example3_error)
        (parameterSymbol ''y'' user3_parameter2) (user_file user3_text user3_root)) = ''number''"
  by code_simp+

text \<open>
  C6, as the code has it. The default export exists and has a call signature, the node
  of the harness at the range of the diagnostic is not a target of the assignment to
  \<^verbatim>\<open>__result\<close>, and it is the call of the default export, its callee or its argument
  list. Then the constructor rewrites the diagnostic: its file is the user unit; its range
  runs from the least start to the greatest end of the declarations of the parameters of
  the first call signature, so it covers each of them, or is the node of the default
  export when the signature has no parameter; its message text is exactly
  \<^verbatim>\<open>Incorrect argument type. Expected: '<declared>', Actual: '[<types>]'.\<close>, where
  \<^verbatim>\<open><declared>\<close> is the text of the type of the harness's \<^verbatim>\<open>__args\<close> slot and
  \<^verbatim>\<open><types>\<close> the checker's texts of the types of the parameters, joined by a comma and
  a space. The \<^verbatim>\<open>message\<close> of the returned error is \<^verbatim>\<open>TypeError: TS<code> \<close>
  followed by the mapper's lines for the rewritten diagnostic.
\<close>

theorem incorrect_argument_type_relocation:
  assumes harness: "sources this EXECUTION_HARNESS_FILENAME = Some hf"
    and user: "sources this USER_CODE_FILENAME = Some uf"
    and symb: "defaultExportSymbol this = Inr (Some symb)"
    and node: "defaultExportNode this = Inr (Some exportNode)"
    and ty: "defaultExportNodeType this = Inr exportType"
    and sg: "firstCallSignature exportType = Some callSignature"
    and notReturn: "isReturnTypeAnchor this
                   (locate (ast hf) (start (diagnostic this)) (dlength (diagnostic this))) = Inr False"
    and anchor: "isArgumentTypeAnchor this
                   (locate (ast hf) (start (diagnostic this)) (dlength (diagnostic this))) = Inr True"
    and arg: "harnessNodeText this (argumentTypeNode this) = Inr declared"
    and decls: "valueDeclarations (getParameters callSignature) = Inr decls"
  shows "let parameters = getParameters callSignature;
             lo = (if parameters = [] then getStart exportNode else Math_min (map getStart decls));
             hi = (if parameters = [] then getEnd exportNode else Math_max (map getEnd decls));
             relocated = this\<lparr>diagnostic := (diagnostic this)
               \<lparr>dfile := Some uf,
                start := Some lo,
                dlength := Some (hi - lo),
                messageText := Text (''Incorrect argument type. Expected: '' @ [CHR 0x27] @ declared
                   @ [CHR 0x27] @ '', Actual: '' @ [CHR 0x27] @ ''[''
                   @ join '', '' (map (\<lambda>p. typeToString (typeChecker this)
                                          (getTypeOfSymbolAtLocation (typeChecker this) p uf))
                                   parameters)
                   @ '']'' @ [CHR 0x27] @ ''.'')\<rparr>\<rparr>
         in new_ExecutionHarnessTypeError this = Inr relocated
            \<and> list_all (\<lambda>n. lo \<le> getStart n \<and> getEnd n \<le> hi) decls
            \<and> UserCodeTypeError_message relocated
                = ''TypeError: TS'' @ numberToString (code (diagnostic this)) @ '' ''
                  @ join [CHR 0x0A] (mapDiagnosticMessage this (diagnostic relocated))"
proof (cases "getParameters callSignature = []")
  case True
  with decls have "decls = []" by simp
  with True show ?thesis
    using harness user symb node ty sg notReturn anchor arg
    by (simp add: new_ExecutionHarnessTypeError_def incorrectArgumentType_def Let_def
        UserCodeTypeError_message_def)
next
  case False
  have cover: "list_all (\<lambda>n. Math_min (map getStart decls) \<le> getStart n
                            \<and> getEnd n \<le> Math_max (map getEnd decls)) decls"
    by (simp add: list_all_iff Math_min_le Math_max_ge)
  from False show ?thesis
    using harness user symb node ty sg notReturn anchor arg decls cover
    by (simp add: new_ExecutionHarnessTypeError_def incorrectArgumentType_def Let_def
        UserCodeTypeError_message_def actualParameterTypes_def)
qed

text \<open>
  Example 3: the range runs from the first parameter to the end of the second, offsets 26
  to 46.
\<close>

theorem incorrect_argument_type_relocation_witness:
  "isArgumentTypeAnchor example3_error
     (locate (ast harness_file) (start (diagnostic example3_error))
        (dlength (diagnostic example3_error))) = Inr True
   \<and> new_ExecutionHarnessTypeError example3_error
       = Inr (example3_error\<lparr>diagnostic := (diagnostic example3_error)
                \<lparr>dfile := Some (user_file user3_text user3_root),
                 start := Some 26,
                 dlength := Some 20,
                 messageText := Text (''Incorrect argument type. Expected: '' @ [CHR 0x27]
                    @ ''[string]'' @ [CHR 0x27] @ '', Actual: '' @ [CHR 0x27]
                    @ ''[string, number]'' @ [CHR 0x27] @ ''.'')\<rparr>\<rparr>)
   \<and> UserCodeTypeError_message
        (example3_error\<lparr>diagnostic := (diagnostic example3_error)
                \<lparr>dfile := Some (user_file user3_text user3_root),
                 start := Some 26,
                 dlength := Some 20,
                 messageText := Text (''Incorrect argument type. Expected: '' @ [CHR 0x27]
                    @ ''[string]'' @ [CHR 0x27] @ '', Actual: '' @ [CHR 0x27]
                    @ ''[string, number]'' @ [CHR 0x27] @ ''.'')\<rparr>\<rparr>)
       = ''TypeError: TS2554 Incorrect argument type. Expected: '' @ [CHR 0x27]
         @ ''[string]'' @ [CHR 0x27] @ '', Actual: '' @ [CHR 0x27]
         @ ''[string, number]'' @ [CHR 0x27] @ ''.''"
proof -
  have sg: "firstCallSignature
              (Some (TsType 3 [Signature numberType
                    [parameterSymbol ''x'' user3_parameter1, parameterSymbol ''y'' user3_parameter2]]))
            = Some (Signature numberType
                    [parameterSymbol ''x'' user3_parameter1, parameterSymbol ''y'' user3_parameter2])"
    by (simp add: firstCallSignature_def)
  have decls: "valueDeclarations (getParameters (Signature numberType
                    [parameterSymbol ''x'' user3_parameter1, parameterSymbol ''y'' user3_parameter2]))
               = Inr [user3_parameter1, user3_parameter2]"
    using ex3(9) by simp
  have mapper: "mapDiagnosticMessage example3_error = example_mapper"
    by (simp add: example3_error_def typeErrorOf_def)
  show ?thesis
    using incorrect_argument_type_relocation [OF ex3(1-5) sg ex3(6,7,8) decls] ex3(7)
    by (simp add: Let_def ex3_values mapper example_mapper_def example_flatten_def
        del: Math_min.simps Math_max.simps)
qed

text \<open>
  C6 as the claim states it fails on example 3: the message of the returned error is not
  exactly the sentence, it starts with \<^verbatim>\<open>TypeError: TS2554 \<close>.
\<close>

theorem incorrect_argument_type_counterexample:
  "(case preProcess example3 example_mapper user3_text ''number'' [''string''] [] of
      Inr (Err [e]) \<Rightarrow>
        message e = ''TypeError: TS2554 Incorrect argument type. Expected: '' @ [CHR 0x27]
                    @ ''[string]'' @ [CHR 0x27] @ '', Actual: '' @ [CHR 0x27]
                    @ ''[string, number]'' @ [CHR 0x27] @ ''.''
        \<and> message e \<noteq> ''Incorrect argument type. Expected: '' @ [CHR 0x27] @ ''[string]''
                        @ [CHR 0x27] @ '', Actual: '' @ [CHR 0x27] @ ''[string, number]''
                        @ [CHR 0x27] @ ''.''
    | _ \<Rightarrow> False)"
  by code_simp

text \<open>The branch of the constructor for a user unit without a default export.\<close>

lemma no_default_export_constructor:
  assumes user: "sources this USER_CODE_FILENAME = Some uf"
    and nodefault: "defaultExportSymbol this = Inr None"
    and arg: "harnessNodeText this (argumentTypeNode this) = Inr argumentType"
    and out: "harnessNodeText this (outputTypeNode this) = Inr outputType"
  shows "new_ExecutionHarnessTypeError this
           = Inr (this\<lparr>diagnostic := (diagnostic this)
                    \<lparr>dfile := Some uf,
                     start := Some (getStart (ast uf)),
                     dlength := Some (getEnd (ast uf) - getStart (ast uf)),
                     messageText := Text
                       (''No default export. Expected a default export function with the signature: ''
                        @ expectedSignature argumentType outputType @ ''.'')\<rparr>\<rparr>)"
proof -
  obtain hf where hf: "sources this EXECUTION_HARNESS_FILENAME = Some hf"
    using harnessNodeText_harness [OF arg] by blast
  have node: "defaultExportNode this = Inr None"
    using nodefault by (simp add: defaultExportNode_def)
  show ?thesis
    using user nodefault arg out hf node
    by (simp add: new_ExecutionHarnessTypeError_def noDefaultExport_def Let_def)
qed

text \<open>Facts about example 2, by evaluation.\<close>

lemma ex2:
  "tsFileMap example2 user2_text ''number'' [''string''] [] USER_CODE_FILENAME
     = Some (user_file user2_text user2_root)"
  "tsFileMap example2 user2_text ''number'' [''string''] [] EXECUTION_HARNESS_FILENAME
     = Some harness_file"
  "lineAndCharacter user2_text 2 = (2, 0)"
  by code_simp+

lemma ex2_getters:
  "defaultExportSymbol (typeErrorOf example2 example_mapper user2_text ''number'' [''string''] [] d)
     = Inr None"
  "harnessNodeText (typeErrorOf example2 example_mapper user2_text ''number'' [''string''] [] d)
     (argumentTypeNode (typeErrorOf example2 example_mapper user2_text ''number'' [''string''] [] d))
   = Inr ''[string]''"
  "harnessNodeText (typeErrorOf example2 example_mapper user2_text ''number'' [''string''] [] d)
     (outputTypeNode (typeErrorOf example2 example_mapper user2_text ''number'' [''string''] [] d))
   = Inr ''number | Promise<number>''"
  by code_simp+

lemma ex2_diagnostics:
  "allDiagnostics example2 user2_text ''number'' [''string''] []
     = [example2_harnessDiagnostic (Some harness_file),
        example2_userDiagnostic (Some (user_file user2_text user2_root))]"
  by code_simp

lemma ex2_kinds:
  "isHarnessDiagnostic (example2_harnessDiagnostic (Some harness_file))"
  "\<not> isHarnessDiagnostic (example2_userDiagnostic (Some (user_file user2_text user2_root)))"
  by code_simp+

text \<open>
  C4, as the code has it. The user unit has no export named \<^verbatim>\<open>default\<close>, and every
  diagnostic of the compilation has a file. Then \<^verbatim>\<open>preProcess\<close> returns \<^verbatim>\<open>Err\<close> with
  one error for each diagnostic, in order. Each diagnostic of the harness is rewritten:
  its file is the user unit, its range runs from \<^verbatim>\<open>getStart()\<close> of the user file (its
  first token) to the end of the text, and its message text is
  \<^verbatim>\<open>No default export. Expected a default export function with the signature: "(...args: <A>) => <R>".\<close>,
  where \<^verbatim>\<open><A>\<close> and \<^verbatim>\<open><R>\<close> are the texts of the types of the harness's
  \<^verbatim>\<open>__args\<close> and \<^verbatim>\<open>__result\<close> slots; its location is the line and column of that
  first token. The other diagnostics are returned as they are.
\<close>

theorem no_default_export_relocation:
  assumes user: "tsFileMap ts userCode outputType argsTypes aux USER_CODE_FILENAME = Some uf"
    and nodefault: "\<And>d. defaultExportSymbol (typeErrorOf ts mapper userCode outputType argsTypes aux d)
                         = Inr None"
    and arg: "\<And>d. harnessNodeText (typeErrorOf ts mapper userCode outputType argsTypes aux d)
                     (argumentTypeNode (typeErrorOf ts mapper userCode outputType argsTypes aux d))
                   = Inr argumentType"
    and out: "\<And>d. harnessNodeText (typeErrorOf ts mapper userCode outputType argsTypes aux d)
                     (outputTypeNode (typeErrorOf ts mapper userCode outputType argsTypes aux d))
                   = Inr resultType"
    and some: "allDiagnostics ts userCode outputType argsTypes aux \<noteq> []"
    and files: "list_all (\<lambda>d. dfile d \<noteq> None) (allDiagnostics ts userCode outputType argsTypes aux)"
  shows "preProcess ts mapper userCode outputType argsTypes aux
           = Inr (Err (map (\<lambda>d.
                 if isHarnessDiagnostic d
                 then ExecutionHarnessTypeError
                        ((typeErrorOf ts mapper userCode outputType argsTypes aux d)
                          \<lparr>diagnostic := d
                            \<lparr>dfile := Some uf,
                             start := Some (getStart (ast uf)),
                             dlength := Some (getEnd (ast uf) - getStart (ast uf)),
                             messageText := Text
                               (''No default export. Expected a default export function with the signature: ''
                                @ [CHR 0x22] @ ''(...args: '' @ argumentType @ '') => '' @ resultType
                                @ [CHR 0x22] @ ''.'')\<rparr>\<rparr>)
                 else UserCodeTypeError (typeErrorOf ts mapper userCode outputType argsTypes aux d))
               (allDiagnostics ts userCode outputType argsTypes aux)))
         \<and> ExecutionHarnessTypeError_location
              ((typeErrorOf ts mapper userCode outputType argsTypes aux d)
                \<lparr>diagnostic := d
                  \<lparr>dfile := Some uf,
                   start := Some (getStart (ast uf)),
                   dlength := Some (getEnd (ast uf) - getStart (ast uf)),
                   messageText := Text
                     (''No default export. Expected a default export function with the signature: ''
                      @ [CHR 0x22] @ ''(...args: '' @ argumentType @ '') => '' @ resultType
                      @ [CHR 0x22] @ ''.'')\<rparr>\<rparr>)
             = Inr \<lparr>line = Some (fst (getLineAndCharacterOfPosition uf (getStart (ast uf))) + 1),
                    column = Some (snd (getLineAndCharacterOfPosition uf (getStart (ast uf))) + 1)\<rparr>"
proof
  let ?obj = "typeErrorOf ts mapper userCode outputType argsTypes aux"
  let ?g = "\<lambda>d. if isHarnessDiagnostic d
                 then ExecutionHarnessTypeError
                        ((?obj d)
                          \<lparr>diagnostic := d
                            \<lparr>dfile := Some uf,
                             start := Some (getStart (ast uf)),
                             dlength := Some (getEnd (ast uf) - getStart (ast uf)),
                             messageText := Text
                               (''No default export. Expected a default export function with the signature: ''
                                @ [CHR 0x22] @ ''(...args: '' @ argumentType @ '') => '' @ resultType
                                @ [CHR 0x22] @ ''.'')\<rparr>\<rparr>)
                 else UserCodeTypeError (?obj d)"
  have src: "sources (?obj d) USER_CODE_FILENAME = Some uf" for d
    using user by (simp add: typeErrorOf_def)
  have new: "new_UserCodeTypeError d (tsFileMap ts userCode outputType argsTypes aux)
               (getTypeChecker (compile ts userCode outputType argsTypes aux)) mapper
             = Inr (?g d)" for d
    using no_default_export_constructor [OF src nodefault arg out, of d]
    by (simp add: new_UserCodeTypeError_cases expectedSignature_def)
       (simp add: typeErrorOf_def)
  show "preProcess ts mapper userCode outputType argsTypes aux
          = Inr (Err (map ?g (allDiagnostics ts userCode outputType argsTypes aux)))"
    using some files new by (intro preProcess_collects) (simp_all add: list_all_iff)
  show "ExecutionHarnessTypeError_location
              ((?obj d)
                \<lparr>diagnostic := d
                  \<lparr>dfile := Some uf,
                   start := Some (getStart (ast uf)),
                   dlength := Some (getEnd (ast uf) - getStart (ast uf)),
                   messageText := Text
                     (''No default export. Expected a default export function with the signature: ''
                      @ [CHR 0x22] @ ''(...args: '' @ argumentType @ '') => '' @ resultType
                      @ [CHR 0x22] @ ''.'')\<rparr>\<rparr>)
             = Inr \<lparr>line = Some (fst (getLineAndCharacterOfPosition uf (getStart (ast uf))) + 1),
                    column = Some (snd (getLineAndCharacterOfPosition uf (getStart (ast uf))) + 1)\<rparr>"
    using src [of d]
    by (simp add: ExecutionHarnessTypeError_location_def split: prod.splits)
qed

text \<open>
  Example 2: two diagnostics are returned; the relocated one starts at offset 2, on line 3.
\<close>

theorem no_default_export_relocation_witness:
  "allDiagnostics example2 user2_text ''number'' [''string''] []
     = [example2_harnessDiagnostic (Some harness_file),
        example2_userDiagnostic (Some (user_file user2_text user2_root))]
   \<and> preProcess example2 example_mapper user2_text ''number'' [''string''] []
       = Inr (Err
           [ExecutionHarnessTypeError
              ((typeErrorOf example2 example_mapper user2_text ''number'' [''string''] []
                  (example2_harnessDiagnostic (Some harness_file)))
                \<lparr>diagnostic := (example2_harnessDiagnostic (Some harness_file))
                  \<lparr>dfile := Some (user_file user2_text user2_root),
                   start := Some 2,
                   dlength := Some 26,
                   messageText := Text
                     (''No default export. Expected a default export function with the signature: ''
                      @ [CHR 0x22] @ ''(...args: [string]) => number | Promise<number>''
                      @ [CHR 0x22] @ ''.'')\<rparr>\<rparr>),
            UserCodeTypeError
              (typeErrorOf example2 example_mapper user2_text ''number'' [''string''] []
                 (example2_userDiagnostic (Some (user_file user2_text user2_root))))])
   \<and> ExecutionHarnessTypeError_location
         ((typeErrorOf example2 example_mapper user2_text ''number'' [''string''] []
                  (example2_harnessDiagnostic (Some harness_file)))
                \<lparr>diagnostic := (example2_harnessDiagnostic (Some harness_file))
                  \<lparr>dfile := Some (user_file user2_text user2_root),
                   start := Some 2,
                   dlength := Some 26,
                   messageText := Text
                     (''No default export. Expected a default export function with the signature: ''
                      @ [CHR 0x22] @ ''(...args: [string]) => number | Promise<number>''
                      @ [CHR 0x22] @ ''.'')\<rparr>\<rparr>)
       = Inr \<lparr>line = Some 3, column = Some 1\<rparr>"
proof -
  have some: "allDiagnostics example2 user2_text ''number'' [''string''] [] \<noteq> []"
    by (simp add: ex2_diagnostics)
  have files: "list_all (\<lambda>d. dfile d \<noteq> None)
                 (allDiagnostics example2 user2_text ''number'' [''string''] [])"
    by (simp add: ex2_diagnostics example2_harnessDiagnostic_def example2_userDiagnostic_def)
  have root: "getStart user2_root = 2" "getEnd user2_root = 28"
    by (simp_all add: user2_root_def)
  show ?thesis
    using no_default_export_relocation [OF ex2(1) ex2_getters some files,
        of "example2_harnessDiagnostic (Some harness_file)"]
    by (simp add: ex2_diagnostics ex2_kinds root getLineAndCharacterOfPosition_def ex2(3))
qed

text \<open>
  C4 as the claim states it fails on example 2, a user unit of 28 characters without a
  default export: the failure has two diagnostics; the range of the relocated one starts
  at offset 2 and is 26 long, not the entire text; and its location is line 3.
\<close>

theorem no_default_export_counterexample:
  "defaultExportSymbol example2_error = Inr None
   \<and> length user2_text = 28
   \<and> (case preProcess example2 example_mapper user2_text ''number'' [''string''] [] of
        Inr (Err [ExecutionHarnessTypeError relocated, other]) \<Rightarrow>
          start (diagnostic relocated) = Some 2
          \<and> dlength (diagnostic relocated) = Some 26
          \<and> ExecutionHarnessTypeError_location relocated = Inr \<lparr>line = Some 3, column = Some 1\<rparr>
      | _ \<Rightarrow> False)"
  by code_simp

section \<open>Returned diagnostics and the user unit\<close>
















section \<open>Diagnostics without a file, and harness diagnostics off the anchors\<close>














section \<open>Diagnostics outside the harness\<close>




section \<open>User-caused failures are returned\<close>





end
